theory Spec2Isabelle
  imports Main
begin

section \<open>Moments: instants seen in a zone\<close>

text \<open>
  \<^verbatim>\<open>functions/timeCalculator.js\<close> works on moment-timezone objects. A moment is an
  instant (milliseconds since the Unix epoch, what \<^verbatim>\<open>valueOf()\<close> returns) together with
  the UTC offset, in minutes, of the zone it is displayed in. The zone database of
  moment-timezone is not part of the repository: it is a parameter \<open>db\<close> that maps a zone
  name to its offset (for a name the library has no data for, the offset of the machine's
  local time, in which the moment then stays). The offset is constant during one
  calculation, as it is for \<^verbatim>\<open>UTC\<close> and \<^verbatim>\<open>Asia/Manila\<close>; a daylight-saving change
  inside the punch interval or the shift day is outside this model. Instants are
  unbounded integers.
\<close>

type_synonym instant = int

type_synonym tzdb = "string \<Rightarrow> int"

record moment =
  valueOf :: instant
  utcOffset :: int

text \<open>The instant \<open>x\<close> as a moment in the zone of a given name.\<close>

definition tz :: "tzdb \<Rightarrow> instant \<Rightarrow> string \<Rightarrow> moment" where
  "tz db x timezone = \<lparr>valueOf = x, utcOffset = db timezone\<rparr>"

text \<open>
  The value of a schedule's \<^verbatim>\<open>timezone\<close> field: not there, \<^verbatim>\<open>null\<close>, or a string.
  The call \<^verbatim>\<open>moment(x).tz(timezone)\<close> sets the zone only when the name is truthy, that
  is a string that is not empty; with \<^verbatim>\<open>null\<close>, the empty string or \<^verbatim>\<open>undefined\<close> it
  is the getter, and on a moment that has no zone yet the getter returns
  \<^verbatim>\<open>undefined\<close>: \<open>None\<close> here.
\<close>

datatype zonename = ZUndefined | ZNull | ZName string

definition moment_tz :: "tzdb \<Rightarrow> instant \<Rightarrow> zonename \<Rightarrow> moment option" where
  "moment_tz db x timezone =
     (case timezone of
        ZName name \<Rightarrow> (if name = [] then None else Some (tz db x name))
      | _ \<Rightarrow> None)"

text \<open>The wall clock of a moment: milliseconds since the epoch, shifted by the offset.\<close>

definition localMillis :: "moment \<Rightarrow> int" where
  "localMillis m = valueOf m + utcOffset m * 60000"

definition hour :: "moment \<Rightarrow> int" where
  "hour m = (localMillis m div 3600000) mod 24"

definition minute :: "moment \<Rightarrow> int" where
  "minute m = (localMillis m div 60000) mod 60"

definition second :: "moment \<Rightarrow> int" where
  "second m = (localMillis m div 1000) mod 60"

definition millisecond :: "moment \<Rightarrow> int" where
  "millisecond m = localMillis m mod 1000"

text \<open>
  A JavaScript number as \<^verbatim>\<open>Number\<close> yields it from a field of the time string: an
  integer or \<^verbatim>\<open>NaN\<close>. The setters \<^verbatim>\<open>.hour(v)\<close>, \<^verbatim>\<open>.minute(v)\<close>, \<^verbatim>\<open>.second(v)\<close>,
  \<^verbatim>\<open>.millisecond(v)\<close> replace one field of the wall clock and keep the others (a value
  beyond the field's range carries over, as \<^verbatim>\<open>Date.setUTCHours\<close> does); with \<^verbatim>\<open>NaN\<close>
  they change nothing.
\<close>

datatype jsnum = Num int | NaN

fun hour_set :: "jsnum \<Rightarrow> moment \<Rightarrow> moment" where
  "hour_set (Num v) m = m\<lparr>valueOf := valueOf m + (v - hour m) * 3600000\<rparr>"
| "hour_set NaN m = m"

fun minute_set :: "jsnum \<Rightarrow> moment \<Rightarrow> moment" where
  "minute_set (Num v) m = m\<lparr>valueOf := valueOf m + (v - minute m) * 60000\<rparr>"
| "minute_set NaN m = m"

fun second_set :: "jsnum \<Rightarrow> moment \<Rightarrow> moment" where
  "second_set (Num v) m = m\<lparr>valueOf := valueOf m + (v - second m) * 1000\<rparr>"
| "second_set NaN m = m"

fun millisecond_set :: "jsnum \<Rightarrow> moment \<Rightarrow> moment" where
  "millisecond_set (Num v) m = m\<lparr>valueOf := valueOf m + (v - millisecond m)\<rparr>"
| "millisecond_set NaN m = m"

text \<open>Comparisons of moments compare instants.\<close>

definition isBefore :: "moment \<Rightarrow> moment \<Rightarrow> bool" where
  "isBefore a b = (valueOf a < valueOf b)"

definition isAfter :: "moment \<Rightarrow> moment \<Rightarrow> bool" where
  "isAfter a b = (valueOf a > valueOf b)"

definition isSameOrBefore :: "moment \<Rightarrow> moment \<Rightarrow> bool" where
  "isSameOrBefore a b = (valueOf a \<le> valueOf b)"

definition isSameOrAfter :: "moment \<Rightarrow> moment \<Rightarrow> bool" where
  "isSameOrAfter a b = (valueOf a \<ge> valueOf b)"

text \<open>
  \<^verbatim>\<open>a.diff(b, 'minutes')\<close>: the difference of the instants in minutes, truncated
  towards zero (\<open>absFloor n d\<close> is moment's \<^verbatim>\<open>absFloor\<close> of the quotient \<open>n / d\<close>).
\<close>

definition absFloor :: "int \<Rightarrow> int \<Rightarrow> int" where
  "absFloor n d = (if n < 0 then - ((- n) div d) else n div d)"

definition diff_minutes :: "moment \<Rightarrow> moment \<Rightarrow> int" where
  "diff_minutes a b = absFloor (valueOf a - valueOf b) 60000"

text \<open>\<^verbatim>\<open>m.add(1, 'minute')\<close>\<close>

definition add_minute :: "moment \<Rightarrow> moment" where
  "add_minute m = m\<lparr>valueOf := valueOf m + 60000\<rparr>"

section \<open>Strings and numbers of JavaScript\<close>

text \<open>\<^verbatim>\<open>s.split(c)\<close> for a one-character separator: never an empty list.\<close>

fun split :: "char \<Rightarrow> string \<Rightarrow> string list" where
  "split c [] = [[]]"
| "split c (x # xs) =
     (if x = c then [] # split c xs
      else (case split c xs of p # ps \<Rightarrow> (x # p) # ps | [] \<Rightarrow> [[x]]))"

definition is_digit :: "char \<Rightarrow> bool" where
  "is_digit c = (48 \<le> (of_char c :: nat) \<and> (of_char c :: nat) \<le> 57)"

definition digit_value :: "char \<Rightarrow> int" where
  "digit_value c = int (of_char c) - 48"

text \<open>
  \<^verbatim>\<open>Number(s)\<close> on the fields of a time string in the \<^verbatim>\<open>HH:MM\<close> format: the empty
  string is 0 and a string of decimal digits is its value. Outside that format the
  definition is a simplification: every other string is taken as \<^verbatim>\<open>NaN\<close>, although
  JavaScript also reads signs, fractions, exponents and surrounding blanks, and a digit
  string keeps its exact value, although JavaScript rounds beyond 2^53. The properties
  below that speak of what a time string yields are stated for the \<^verbatim>\<open>HH:MM\<close> format.
\<close>

definition Number :: "string \<Rightarrow> jsnum" where
  "Number s =
     (if list_all is_digit s then Num (foldl (\<lambda>a c. 10 * a + digit_value c) 0 s) else NaN)"

text \<open>
  \<^verbatim>\<open>(minutes / 60).toFixed(2)\<close> for an integer number of minutes. The quotient is never
  half-way between two hundredths (\<open>10 * minutes + 3\<close> is odd), so rounding the double
  and rounding the fraction agree: the hundredths are \<open>(10 * |minutes| + 3) div 6\<close>.
\<close>

fun showNat :: "nat \<Rightarrow> string" where
  "showNat n =
     (if n < 10 then [char_of (48 + n)]
      else showNat (n div 10) @ [char_of (48 + n mod 10)])"

definition toFixed2 :: "int \<Rightarrow> string" where
  "toFixed2 minutes =
     (let hundredths = nat ((10 * \<bar>minutes\<bar> + 3) div 6);
          digits = showNat (hundredths div 100) @ ''.'' @
                   [char_of (48 + hundredths mod 100 div 10), char_of (48 + hundredths mod 10)]
      in if minutes < 0 then ''-'' @ digits else digits)"

section \<open>The steps of the calculator\<close>

datatype error = Error string | TypeError string

fun message :: "error \<Rightarrow> string" where
  "message (Error msg) = msg"
| "message (TypeError msg) = msg"

text \<open>
  \<^verbatim>\<open>getScheduledTime(dateMoment, timeString, timezone)\<close>. Reading \<^verbatim>\<open>split\<close> of a missing
  time string throws a \<^verbatim>\<open>TypeError\<close>; so does \<^verbatim>\<open>dateMoment.clone()\<close> when
  \<^verbatim>\<open>dateMoment\<close> is \<^verbatim>\<open>undefined\<close>. A time string without a colon leaves \<^verbatim>\<open>minutes\<close>
  undefined: \<^verbatim>\<open>.minute(undefined)\<close> is the getter and returns a number, on which
  \<^verbatim>\<open>.second(0)\<close> throws a \<^verbatim>\<open>TypeError\<close>. The text of a \<^verbatim>\<open>TypeError\<close> is the
  engine's; it is kept short here.
\<close>

definition getScheduledTime ::
    "moment option \<Rightarrow> string option \<Rightarrow> zonename \<Rightarrow> error + moment" where
  "getScheduledTime dateMoment timeString timezone =
     (case timeString of
        None \<Rightarrow> Inl (TypeError ''Cannot read properties of undefined (reading split)'')
      | Some s \<Rightarrow>
          (case dateMoment of
             None \<Rightarrow> Inl (TypeError ''Cannot read properties of undefined (reading clone)'')
           | Some date \<Rightarrow>
               (case map Number (split CHR '':'' s) of
                  hours # minutes # _ \<Rightarrow>
                    Inr (millisecond_set (Num 0) (second_set (Num 0)
                           (minute_set minutes (hour_set hours date))))
                | _ \<Rightarrow> Inl (TypeError ''second is not a function''))))"

definition calculateLate :: "moment \<Rightarrow> moment \<Rightarrow> int" where
  "calculateLate punchIn shiftStart =
     (if isSameOrBefore punchIn shiftStart then 0 else diff_minutes punchIn shiftStart)"

definition calculateUndertime :: "moment \<Rightarrow> moment \<Rightarrow> int" where
  "calculateUndertime punchOut shiftEnd =
     (if isSameOrAfter punchOut shiftEnd then 0 else diff_minutes shiftEnd punchOut)"

definition calculateRegularHours ::
    "moment \<Rightarrow> moment \<Rightarrow> moment \<Rightarrow> moment \<Rightarrow> int \<Rightarrow> int" where
  "calculateRegularHours punchIn punchOut shiftStart shiftEnd scheduledMinutes =
     (let effectiveStart = (if isAfter punchIn shiftStart then punchIn else shiftStart);
          effectiveEnd = (if isBefore punchOut shiftEnd then punchOut else shiftEnd)
      in if isSameOrBefore effectiveEnd effectiveStart then 0
         else min (diff_minutes effectiveEnd effectiveStart) scheduledMinutes)"

definition calculateOvertime :: "moment \<Rightarrow> moment \<Rightarrow> moment \<Rightarrow> int \<Rightarrow> int \<Rightarrow> int" where
  "calculateOvertime punchIn punchOut shiftEnd totalWorkedMinutes scheduledMinutes =
     (if isSameOrBefore punchOut shiftEnd then 0 else diff_minutes punchOut shiftEnd)"

text \<open>
  The loop of \<^verbatim>\<open>calculateNightDifferential\<close>: \<open>currentTime\<close> walks from the punch-in
  in steps of one minute while it is before \<open>endTime\<close>.
\<close>

function nightLoop :: "moment \<Rightarrow> moment \<Rightarrow> int \<Rightarrow> int" where
  "nightLoop currentTime endTime nightMinutes =
     (if isBefore currentTime endTime
      then nightLoop (add_minute currentTime) endTime
             (if hour currentTime \<ge> 22 \<or> hour currentTime < 6
              then nightMinutes + 1 else nightMinutes)
      else nightMinutes)"
  by pat_completeness auto
termination
  by (relation "measure (\<lambda>(c, e, n). nat (valueOf e - valueOf c))")
     (auto simp: isBefore_def add_minute_def)

declare nightLoop.simps [simp del]

definition calculateNightDifferential :: "moment \<Rightarrow> moment \<Rightarrow> int" where
  "calculateNightDifferential punchIn punchOut = nightLoop punchIn punchOut 0"

section \<open>The data of the calculator\<close>

text \<open>
  The schedule: \<^verbatim>\<open>start\<close> and \<^verbatim>\<open>end\<close> are time strings, \<open>None\<close> when the field is not
  there or \<^verbatim>\<open>null\<close> (reading \<^verbatim>\<open>split\<close> throws on both); \<^verbatim>\<open>timezone\<close> is a zone
  name, \<^verbatim>\<open>null\<close> or not there.
\<close>

record schedule =
  start :: "string option"
  end' :: "string option"
  timezone :: zonename

text \<open>
  The metrics object that \<^verbatim>\<open>calculateTimeMetrics\<close> returns. The four instants are
  kept as instants; the source renders them with \<^verbatim>\<open>toISOString()\<close>.
\<close>

record time_metrics =
  totalWorkedHours :: string
  totalWorkedMinutes :: int
  regularHours :: string
  regularMinutes :: int
  overtimeHours :: string
  overtimeMinutes :: int
  nightDiffHours :: string
  nightDiffMinutes :: int
  lateMinutes :: int
  undertimeMinutes :: int
  punchInTime :: instant
  punchOutTime :: instant
  shiftStart :: instant
  shiftEnd :: instant

text \<open>
  An attendance record is a JavaScript object. Its two punches are instants (a
  \<^verbatim>\<open>Date\<close>, or the instant an ISO-8601 string denotes), or \<open>None\<close> when the field is
  missing, \<^verbatim>\<open>null\<close> or empty. A punch that is there but denotes no instant (a string
  that does not parse, on which the source computes \<^verbatim>\<open>NaN\<close> metrics and does not throw)
  is outside this type. All its other fields are kept by name in \<open>others\<close>.
\<close>

datatype jsval = JNull | JStr string | JNum int | JMetrics time_metrics

record attendance =
  punchIn :: "instant option"
  punchOut :: "instant option"
  others :: "string \<rightharpoonup> jsval"

section \<open>The calculator\<close>

text \<open>
  The body of \<^verbatim>\<open>calculateTimeMetrics\<close> once the two punches and the two shift
  instants are moments (\<open>punchInM\<close> is the source's \<^verbatim>\<open>punchInTime\<close>, and so on: the
  plain names are the fields of the result).
\<close>

definition metricsOf :: "moment \<Rightarrow> moment \<Rightarrow> moment \<Rightarrow> moment \<Rightarrow> time_metrics" where
  "metricsOf punchInM punchOutM shiftStartM shiftEndM =
     (let lateMin = calculateLate punchInM shiftStartM;
          undertimeMin = calculateUndertime punchOutM shiftEndM;
          totalWorkedMin = diff_minutes punchOutM punchInM;
          scheduledMinutes = diff_minutes shiftEndM shiftStartM;
          regularMin = calculateRegularHours punchInM punchOutM
                         shiftStartM shiftEndM scheduledMinutes;
          overtimeMin = calculateOvertime punchInM punchOutM shiftEndM
                          totalWorkedMin scheduledMinutes;
          nightDiffMin = calculateNightDifferential punchInM punchOutM
      in \<lparr>totalWorkedHours = toFixed2 totalWorkedMin,
          totalWorkedMinutes = totalWorkedMin,
          regularHours = toFixed2 regularMin,
          regularMinutes = regularMin,
          overtimeHours = toFixed2 overtimeMin,
          overtimeMinutes = overtimeMin,
          nightDiffHours = toFixed2 nightDiffMin,
          nightDiffMinutes = nightDiffMin,
          lateMinutes = lateMin,
          undertimeMinutes = undertimeMin,
          punchInTime = valueOf punchInM,
          punchOutTime = valueOf punchOutM,
          shiftStart = valueOf shiftStartM,
          shiftEnd = valueOf shiftEndM\<rparr>)"

definition calculateTimeMetrics ::
    "tzdb \<Rightarrow> 'a attendance_scheme \<Rightarrow> schedule \<Rightarrow> error + time_metrics" where
  "calculateTimeMetrics db attendance sched =
     (let zone = (case timezone sched of ZUndefined \<Rightarrow> ZName ''UTC'' | z \<Rightarrow> z)
      in case (punchIn attendance, punchOut attendance) of
           (Some pin, Some pout) \<Rightarrow>
             (let punchInM = moment_tz db pin zone;
                  punchOutM = moment_tz db pout zone
              in case getScheduledTime punchInM (start sched) zone of
                   Inl e \<Rightarrow> Inl e
                 | Inr shiftStartM \<Rightarrow>
                     (case getScheduledTime punchInM (end' sched) zone of
                        Inl e \<Rightarrow> Inl e
                      | Inr shiftEndM \<Rightarrow>
                          (case (punchInM, punchOutM) of
                             (Some pinM, Some poutM) \<Rightarrow>
                               Inr (metricsOf pinM poutM shiftStartM shiftEndM)
                           | _ \<Rightarrow>
                               Inl (TypeError
                                 ''Cannot read properties of undefined (reading isSameOrBefore)''))))
         | _ \<Rightarrow> Inl (Error ''Both punchIn and punchOut are required''))"

text \<open>
  \<^verbatim>\<open>batchCalculateTimeMetrics\<close>: each record is spread into a new object, and the
  fields \<^verbatim>\<open>metrics\<close> and \<^verbatim>\<open>calculationError\<close> are written after the spread.
\<close>

definition batchEntry :: "tzdb \<Rightarrow> schedule \<Rightarrow> attendance \<Rightarrow> attendance" where
  "batchEntry db userSchedule attendanceRecord =
     (case calculateTimeMetrics db attendanceRecord userSchedule of
        Inr metrics \<Rightarrow>
          attendanceRecord\<lparr>others := (others attendanceRecord)
                   (''metrics'' \<mapsto> JMetrics metrics, ''calculationError'' \<mapsto> JNull)\<rparr>
      | Inl err \<Rightarrow>
          attendanceRecord\<lparr>others := (others attendanceRecord)
                   (''metrics'' \<mapsto> JNull, ''calculationError'' \<mapsto> JStr (message err))\<rparr>)"

definition batchCalculateTimeMetrics :: "tzdb \<Rightarrow> attendance list \<Rightarrow> schedule \<Rightarrow> attendance list" where
  "batchCalculateTimeMetrics db attendanceRecords userSchedule =
     map (batchEntry db userSchedule) attendanceRecords"

section \<open>Writing instants\<close>

text \<open>
  The instant of an ISO-8601 string \<^verbatim>\<open>YYYY-MM-DDThh:mm:ss+HH:MM\<close>, from its fields and
  its offset in minutes (days since the epoch by the usual civil-calendar count).
\<close>

definition daysFromCivil :: "int \<Rightarrow> int \<Rightarrow> int \<Rightarrow> int" where
  "daysFromCivil y m d =
     (let y' = (if m \<le> 2 then y - 1 else y);
          era = y' div 400;
          yoe = y' - era * 400;
          doy = (153 * (if m > 2 then m - 3 else m + 9) + 2) div 5 + d - 1;
          doe = yoe * 365 + yoe div 4 - yoe div 100 + doy
      in era * 146097 + doe - 719468)"

definition isoInstant :: "int \<Rightarrow> int \<Rightarrow> int \<Rightarrow> int \<Rightarrow> int \<Rightarrow> int \<Rightarrow> int \<Rightarrow> instant" where
  "isoInstant y m d hh mm ss offset =
     ((daysFromCivil y m d * 24 + hh) * 60 + mm - offset) * 60000 + ss * 1000"

section \<open>Notions used in the properties\<close>

text \<open>
  \<^verbatim>\<open>scheduledMinutes\<close>, a local of \<^verbatim>\<open>calculateTimeMetrics\<close>
  (\<^verbatim>\<open>shiftEnd.diff(shiftStart, 'minutes')\<close>), read off the returned shift instants.
\<close>

definition scheduledMinutes :: "time_metrics \<Rightarrow> int" where
  "scheduledMinutes m = absFloor (shiftEnd m - shiftStart m) 60000"

text \<open>The \<^verbatim>\<open>HH:MM\<close> format of a schedule's time strings.\<close>

definition hhmm :: "string \<Rightarrow> bool" where
  "hhmm s =
     (case s of
        [h1, h2, c, m1, m2] \<Rightarrow>
          is_digit h1 \<and> is_digit h2 \<and> c = CHR '':'' \<and> is_digit m1 \<and> is_digit m2
      | _ \<Rightarrow> False)"

text \<open>A time string that is present is in the \<^verbatim>\<open>HH:MM\<close> format.\<close>

definition wellFormed :: "string option \<Rightarrow> bool" where
  "wellFormed t = (case t of None \<Rightarrow> True | Some s \<Rightarrow> hhmm s)"

text \<open>
  A zone database for the examples: \<^verbatim>\<open>Asia/Manila\<close> is at UTC+08:00 all year, and
  \<^verbatim>\<open>UTC\<close> is at 0.
\<close>

definition zones :: tzdb where
  "zones z = (if z = ''Asia/Manila'' then 480 else 0)"

text \<open>The schedule of the two scenarios, and a night shift.\<close>

definition officeHours :: schedule where
  "officeHours = \<lparr>start = Some ''09:00'', end' = Some ''18:00'', timezone = ZName ''Asia/Manila''\<rparr>"

definition nightShift :: schedule where
  "nightShift = \<lparr>start = Some ''22:00'', end' = Some ''06:00'', timezone = ZName ''Asia/Manila''\<rparr>"

text \<open>An attendance record with both punches and no other field.\<close>

definition punches :: "instant \<Rightarrow> instant \<Rightarrow> attendance" where
  "punches pin pout = \<lparr>punchIn = Some pin, punchOut = Some pout, others = Map.empty\<rparr>"

text \<open>
  The zone of a schedule: its name, and \<^verbatim>\<open>timezone = 'UTC'\<close> when the field is not there.
  A zone is named when the field is not there or a string that is not empty; otherwise
  the punches get no zone and the call fails.
\<close>

definition zoneOf :: "schedule \<Rightarrow> string" where
  "zoneOf s = (case timezone s of ZName z \<Rightarrow> z | _ \<Rightarrow> ''UTC'')"

definition zoneNamed :: "zonename \<Rightarrow> bool" where
  "zoneNamed z = (case z of ZUndefined \<Rightarrow> True | ZNull \<Rightarrow> False | ZName name \<Rightarrow> name \<noteq> [])"

text \<open>
  The test of the night loop on the clock of a moment, the moment \<open>k\<close> minutes after
  another (\<open>currentTime\<close> after \<open>k\<close> rounds of the loop), and the number of night hours
  among the first \<open>n\<close> of these minute steps.
\<close>

definition nightHour :: "moment \<Rightarrow> bool" where
  "nightHour m = (hour m \<ge> 22 \<or> hour m < 6)"

definition minuteStep :: "moment \<Rightarrow> nat \<Rightarrow> moment" where
  "minuteStep m k = m\<lparr>valueOf := valueOf m + 60000 * int k\<rparr>"

definition nightAmong :: "moment \<Rightarrow> nat \<Rightarrow> nat" where
  "nightAmong m n = length (filter (\<lambda>k. nightHour (minuteStep m k)) [0..<n])"

text \<open>
  The minutes that start in \<open>[pin, pout)\<close>, counted from \<open>pin\<close> (a last, partial minute
  included), and the whole minutes that fit in \<open>[pin, pout)\<close>.
\<close>

definition startedMinutes :: "instant \<Rightarrow> instant \<Rightarrow> nat" where
  "startedMinutes pin pout = nat ((pout - pin + 59999) div 60000)"

definition wholeMinutes :: "instant \<Rightarrow> instant \<Rightarrow> nat" where
  "wholeMinutes pin pout = nat ((pout - pin) div 60000)"

text \<open>
  The night differential in the words of the specification: the whole minutes in
  \<open>[punchIn, punchOut)\<close> whose local clock hour is at least 22 or below 6.
\<close>

definition wholeNightMinutes :: "moment \<Rightarrow> moment \<Rightarrow> nat" where
  "wholeNightMinutes pin pout = nightAmong pin (wholeMinutes (valueOf pin) (valueOf pout))"

text \<open>A five-minute shift, for short examples.\<close>

definition shortShift :: schedule where
  "shortShift = \<lparr>start = Some ''09:00'', end' = Some ''09:05'', timezone = ZName ''Asia/Manila''\<rparr>"

section \<open>Properties of the steps\<close>

subsection \<open>Instants\<close>

lemma isoInstant_examples:
  "isoInstant 1970 1 1 0 0 0 0 = 0"
  "isoInstant 2024 2 29 12 0 0 0 = 1709208000000"
  "isoInstant 2025 10 1 1 15 0 0 = 1759281300000"
  "isoInstant 2025 10 1 9 15 0 480 = 1759281300000"
  by (simp_all add: isoInstant_def daysFromCivil_def)

subsection \<open>Arithmetic of minute differences\<close>

lemma absFloor_nonneg: "0 \<le> n \<Longrightarrow> absFloor n 60000 = n div 60000"
  by (simp add: absFloor_def)

lemma absFloor_ge0: "0 \<le> n \<Longrightarrow> 0 \<le> absFloor n 60000"
  by (simp add: absFloor_def)

lemma absFloor_le0: "n \<le> 0 \<Longrightarrow> absFloor n 60000 \<le> 0"
  by (simp add: absFloor_def pos_imp_zdiv_nonneg_iff)

lemma div_minutes_add:
  "0 \<le> a \<Longrightarrow> 0 \<le> b \<Longrightarrow> a div 60000 + b div 60000 \<le> (a + b) div (60000::int)"
  by linarith

lemma div_minutes_mono: "a \<le> b \<Longrightarrow> a div 60000 \<le> b div (60000::int)"
  by (simp add: zdiv_mono1)

subsection \<open>The fields of the result\<close>

lemma metricsOf_fields:
  "totalWorkedMinutes (metricsOf pin pout ss se) = diff_minutes pout pin"
  "regularMinutes (metricsOf pin pout ss se) =
     calculateRegularHours pin pout ss se (diff_minutes se ss)"
  "overtimeMinutes (metricsOf pin pout ss se) =
     calculateOvertime pin pout se (diff_minutes pout pin) (diff_minutes se ss)"
  "nightDiffMinutes (metricsOf pin pout ss se) = calculateNightDifferential pin pout"
  "lateMinutes (metricsOf pin pout ss se) = calculateLate pin ss"
  "undertimeMinutes (metricsOf pin pout ss se) = calculateUndertime pout se"
  "punchInTime (metricsOf pin pout ss se) = valueOf pin"
  "punchOutTime (metricsOf pin pout ss se) = valueOf pout"
  "shiftStart (metricsOf pin pout ss se) = valueOf ss"
  "shiftEnd (metricsOf pin pout ss se) = valueOf se"
  by (simp_all add: metricsOf_def Let_def)

lemma scheduledMinutes_metricsOf:
  "scheduledMinutes (metricsOf pin pout ss se) = diff_minutes se ss"
  by (simp add: scheduledMinutes_def metricsOf_fields diff_minutes_def)

lemma calculateTimeMetrics_Inr:
  assumes "calculateTimeMetrics db a s = Inr m"
  shows "\<exists>pin pout ss se. m = metricsOf pin pout ss se"
  using assms
  by (auto simp: calculateTimeMetrics_def Let_def split: option.splits sum.splits)

subsection \<open>The metrics of given moments\<close>

lemma steps_overtime_regular:
  assumes "valueOf ss \<le> valueOf pin" "valueOf pin \<le> valueOf se" "valueOf pin \<le> valueOf pout"
  shows "calculateOvertime pin pout se t d + calculateRegularHours pin pout ss se d
           \<le> diff_minutes pout pin"
proof (cases "valueOf pout \<le> valueOf se")
  case True
  have "calculateRegularHours pin pout ss se d \<le> diff_minutes pout pin"
    using assms True
    by (auto simp: calculateRegularHours_def Let_def isAfter_def isBefore_def
          isSameOrBefore_def diff_minutes_def absFloor_nonneg)
  moreover have "calculateOvertime pin pout se t d = 0"
    using True by (simp add: calculateOvertime_def isSameOrBefore_def)
  ultimately show ?thesis by simp
next
  case False
  have ot: "calculateOvertime pin pout se t d = (valueOf pout - valueOf se) div 60000"
    using False by (simp add: calculateOvertime_def isSameOrBefore_def diff_minutes_def absFloor_nonneg)
  have reg: "calculateRegularHours pin pout ss se d \<le> (valueOf se - valueOf pin) div 60000"
    using assms False
    by (auto simp: calculateRegularHours_def Let_def isAfter_def isBefore_def
          isSameOrBefore_def diff_minutes_def absFloor_nonneg)
  have "(valueOf pout - valueOf se) div 60000 + (valueOf se - valueOf pin) div 60000
          \<le> ((valueOf pout - valueOf se) + (valueOf se - valueOf pin)) div 60000"
    using assms False by (intro div_minutes_add) auto
  then show ?thesis
    using ot reg assms by (simp add: diff_minutes_def absFloor_nonneg)
qed

lemma regular_bounds:
  assumes "valueOf ss \<le> valueOf se"
  shows "0 \<le> calculateRegularHours pin pout ss se (diff_minutes se ss)"
    and "calculateRegularHours pin pout ss se (diff_minutes se ss) \<le> diff_minutes se ss"
  using assms
  by (auto simp: calculateRegularHours_def Let_def isAfter_def isBefore_def
        isSameOrBefore_def diff_minutes_def absFloor_nonneg pos_imp_zdiv_nonneg_iff)

lemma full_shift:
  assumes "valueOf pin \<le> valueOf ss" "valueOf se \<le> valueOf pout" "valueOf ss \<le> valueOf se"
  shows "calculateRegularHours pin pout ss se (diff_minutes se ss) = diff_minutes se ss"
    and "calculateLate pin ss = 0" and "calculateUndertime pout se = 0"
  using assms
  by (auto simp: calculateRegularHours_def calculateLate_def calculateUndertime_def Let_def
        isAfter_def isBefore_def isSameOrBefore_def isSameOrAfter_def diff_minutes_def
        absFloor_def)

lemma nightLoop_done: "\<not> isBefore c e \<Longrightarrow> nightLoop c e n = n"
  by (subst nightLoop.simps) simp

lemma nightLoop_step:
  "isBefore c e \<Longrightarrow>
   nightLoop c e n =
     nightLoop (add_minute c) e (if hour c \<ge> 22 \<or> hour c < 6 then n + 1 else n)"
  by (subst nightLoop.simps) simp

lemma inverted_steps:
  assumes "valueOf pout \<le> valueOf pin"
  shows "calculateNightDifferential pin pout = 0"
    and "calculateRegularHours pin pout ss se d = 0"
    and "diff_minutes pout pin \<le> 0"
  using assms
  by (auto simp: calculateNightDifferential_def calculateRegularHours_def Let_def
        isAfter_def isBefore_def isSameOrBefore_def diff_minutes_def absFloor_le0
        nightLoop_done)

subsection \<open>Time strings\<close>

lemma is_digit_not_colon: "is_digit c \<Longrightarrow> c \<noteq> CHR '':''"
  by (auto simp: is_digit_def)

lemma hhmm_numbers:
  assumes "hhmm s"
  shows "\<exists>h m. map Number (split CHR '':'' s) = [Num h, Num m]"
proof -
  from assms obtain h1 h2 m1 m2 where
    s: "s = [h1, h2, CHR '':'', m1, m2]" and
    d: "is_digit h1" "is_digit h2" "is_digit m1" "is_digit m2"
    by (auto simp: hhmm_def split: list.splits)
  show ?thesis
    using d is_digit_not_colon[of h1] is_digit_not_colon[of h2]
      is_digit_not_colon[of m1] is_digit_not_colon[of m2]
    by (simp add: s Number_def)
qed

lemma getScheduledTime_hhmm:
  assumes "hhmm s"
  shows "\<exists>t. getScheduledTime (Some d) (Some s) z = Inr t"
proof -
  from hhmm_numbers[OF assms] obtain h m where
    "map Number (split CHR '':'' s) = [Num h, Num m]" by auto
  then show ?thesis by (simp add: getScheduledTime_def)
qed

lemma getScheduledTime_error:
  "getScheduledTime d t z = Inl e \<Longrightarrow> \<exists>msg. e = TypeError msg"
  by (auto simp: getScheduledTime_def split: option.splits list.splits)

lemma getScheduledTime_no_date: "\<exists>msg. getScheduledTime None t z = Inl (TypeError msg)"
  by (simp add: getScheduledTime_def split: option.splits)

lemma getScheduledTime_no_time: "\<exists>msg. getScheduledTime d None z = Inl (TypeError msg)"
  by (simp add: getScheduledTime_def)

lemma moment_tz_named:
  assumes "zoneNamed (timezone s)"
  shows "moment_tz db x (case timezone s of ZUndefined \<Rightarrow> ZName ''UTC'' | z \<Rightarrow> z)
           = Some (tz db x (zoneOf s))"
  using assms by (simp add: moment_tz_def zoneNamed_def zoneOf_def split: zonename.splits)

lemma moment_tz_unnamed:
  assumes "\<not> zoneNamed (timezone s)"
  shows "moment_tz db x (case timezone s of ZUndefined \<Rightarrow> ZName ''UTC'' | z \<Rightarrow> z) = None"
  using assms by (simp add: moment_tz_def zoneNamed_def split: zonename.splits)

lemma calculateTimeMetrics_returns:
  assumes "punchIn a = Some pin" "punchOut a = Some pout"
    and "start s = Some t1" "hhmm t1" "end' s = Some t2" "hhmm t2"
    and "zoneNamed (timezone s)"
  shows "\<exists>ss se. calculateTimeMetrics db a s =
           Inr (metricsOf (tz db pin (zoneOf s)) (tz db pout (zoneOf s)) ss se)"
proof -
  let ?z = "case timezone s of ZUndefined \<Rightarrow> ZName ''UTC'' | z \<Rightarrow> z"
  obtain ss where ss: "getScheduledTime (Some (tz db pin (zoneOf s))) (Some t1) ?z = Inr ss"
    using getScheduledTime_hhmm[OF assms(4)] by auto
  obtain se where se: "getScheduledTime (Some (tz db pin (zoneOf s))) (Some t2) ?z = Inr se"
    using getScheduledTime_hhmm[OF assms(6)] by auto
  have "calculateTimeMetrics db a s =
          Inr (metricsOf (tz db pin (zoneOf s)) (tz db pout (zoneOf s)) ss se)"
    using assms(1,2,3,5) ss se
    by (simp add: calculateTimeMetrics_def Let_def moment_tz_named[OF assms(7)])
  then show ?thesis by blast
qed

lemma calculateTimeMetrics_unnamed:
  assumes "punchIn a = Some pin" "punchOut a = Some pout" and "\<not> zoneNamed (timezone s)"
  shows "\<exists>msg. calculateTimeMetrics db a s = Inl (TypeError msg)"
proof -
  let ?z = "case timezone s of ZUndefined \<Rightarrow> ZName ''UTC'' | z \<Rightarrow> z"
  obtain msg where "getScheduledTime None (start s) ?z = Inl (TypeError msg)"
    using getScheduledTime_no_date by blast
  then show ?thesis
    using assms(1,2)
    by (simp add: calculateTimeMetrics_def Let_def moment_tz_unnamed[OF assms(3)])
qed

lemma calculateTimeMetrics_db:
  assumes "db (zoneOf s) = db' (zoneOf s)"
  shows "calculateTimeMetrics db a s = calculateTimeMetrics db' a s"
proof -
  define zone where "zone = (case timezone s of ZUndefined \<Rightarrow> ZName ''UTC'' | z \<Rightarrow> z)"
  have eq: "moment_tz db x zone = moment_tz db' x zone" for x
    using assms
    by (simp add: moment_tz_def tz_def zone_def zoneOf_def split: zonename.splits)
  show ?thesis
    unfolding calculateTimeMetrics_def Let_def zone_def[symmetric]
    by (simp add: eq cong: option.case_cong sum.case_cong)
qed

section \<open>The day-shift scenario\<close>

text \<open>
  Schedule 09:00 to 18:00 in \<^verbatim>\<open>Asia/Manila\<close>, punch-in \<^verbatim>\<open>2025-10-01T09:15:00+08:00\<close>,
  punch-out \<^verbatim>\<open>2025-10-01T19:30:00+08:00\<close>: the whole result.
\<close>

lemma scenario5_value:
  "calculateTimeMetrics zones
     (punches (isoInstant 2025 10 1 9 15 0 480) (isoInstant 2025 10 1 19 30 0 480)) officeHours =
   Inr \<lparr>totalWorkedHours = ''10.25'', totalWorkedMinutes = 615,
        regularHours = ''8.75'', regularMinutes = 525,
        overtimeHours = ''1.50'', overtimeMinutes = 90,
        nightDiffHours = ''0.00'', nightDiffMinutes = 0,
        lateMinutes = 15, undertimeMinutes = 0,
        punchInTime = 1759281300000, punchOutTime = 1759318200000,
        shiftStart = 1759280400000, shiftEnd = 1759312800000\<rparr>"
  by code_simp

lemma manila_db:
  assumes "db ''Asia/Manila'' = 480"
  shows "calculateTimeMetrics db a officeHours = calculateTimeMetrics zones a officeHours"
  by (rule calculateTimeMetrics_db) (simp add: officeHours_def zoneOf_def zones_def assms)

text \<open>
  C1, as amended. With \<^verbatim>\<open>Asia/Manila\<close> at UTC+08:00, the day-shift scenario returns
  totalWorkedMinutes 615 (ten hours and a quarter, not 625), regularMinutes 525 with
  regularHours "8.75", overtimeMinutes 90 with overtimeHours "1.50", nightDiffMinutes 0,
  lateMinutes 15 and undertimeMinutes 0.
\<close>

theorem day_shift_scenario:
  assumes "db ''Asia/Manila'' = 480"
  shows "\<exists>m. calculateTimeMetrics db
           (punches (isoInstant 2025 10 1 9 15 0 480) (isoInstant 2025 10 1 19 30 0 480))
           officeHours = Inr m
         \<and> totalWorkedMinutes m = 615
         \<and> regularMinutes m = 525 \<and> regularHours m = ''8.75''
         \<and> overtimeMinutes m = 90 \<and> overtimeHours m = ''1.50''
         \<and> nightDiffMinutes m = 0 \<and> lateMinutes m = 15 \<and> undertimeMinutes m = 0"
  by (simp add: manila_db[of db, OF assms] scenario5_value)

theorem day_shift_scenario_witness:
  "zones ''Asia/Manila'' = 480 \<and>
   (\<exists>m. calculateTimeMetrics zones
           (punches (isoInstant 2025 10 1 9 15 0 480) (isoInstant 2025 10 1 19 30 0 480))
           officeHours = Inr m
         \<and> totalWorkedMinutes m = 615
         \<and> regularMinutes m = 525 \<and> regularHours m = ''8.75''
         \<and> overtimeMinutes m = 90 \<and> overtimeHours m = ''1.50''
         \<and> nightDiffMinutes m = 0 \<and> lateMinutes m = 15 \<and> undertimeMinutes m = 0)"
proof -
  have h: "zones ''Asia/Manila'' = 480" by (simp add: zones_def)
  show ?thesis using h day_shift_scenario[of zones, OF h] by blast
qed

text \<open>
  C1 as stated fails: in the day-shift scenario the call does not return
  totalWorkedMinutes 625.
\<close>

theorem day_shift_total_counterexample:
  "\<not> (\<exists>m. calculateTimeMetrics zones
           (punches (isoInstant 2025 10 1 9 15 0 480) (isoInstant 2025 10 1 19 30 0 480))
           officeHours = Inr m
         \<and> totalWorkedMinutes m = 625)"
  by (simp add: scenario5_value)

section \<open>The overnight scenario\<close>

lemma scenario6_value:
  "calculateTimeMetrics zones
     (punches (isoInstant 2025 10 1 21 0 0 480) (isoInstant 2025 10 2 7 0 0 480)) officeHours =
   Inr \<lparr>totalWorkedHours = ''10.00'', totalWorkedMinutes = 600,
        regularHours = ''0.00'', regularMinutes = 0,
        overtimeHours = ''13.00'', overtimeMinutes = 780,
        nightDiffHours = ''8.00'', nightDiffMinutes = 480,
        lateMinutes = 720, undertimeMinutes = 0,
        punchInTime = 1759323600000, punchOutTime = 1759359600000,
        shiftStart = 1759280400000, shiftEnd = 1759312800000\<rparr>"
  by code_simp

text \<open>
  C2. Schedule 09:00 to 18:00 in \<^verbatim>\<open>Asia/Manila\<close>, punch-in
  \<^verbatim>\<open>2025-10-01T21:00:00+08:00\<close>, punch-out \<^verbatim>\<open>2025-10-02T07:00:00+08:00\<close>: the call
  returns nightDiffMinutes 480, regularMinutes 0 and lateMinutes 720, but overtimeMinutes
  780, the minutes from the shift end at 18:00 to the punch-out, although only 600 minutes
  were worked.
\<close>

theorem overnight_scenario:
  assumes "db ''Asia/Manila'' = 480"
  shows "\<exists>m. calculateTimeMetrics db
           (punches (isoInstant 2025 10 1 21 0 0 480) (isoInstant 2025 10 2 7 0 0 480))
           officeHours = Inr m
         \<and> nightDiffMinutes m = 480 \<and> overtimeMinutes m = 780 \<and> totalWorkedMinutes m = 600
         \<and> regularMinutes m = 0 \<and> lateMinutes m = 720"
  by (simp add: manila_db[of db, OF assms] scenario6_value)

text \<open>The overnight scenario in the example zone database.\<close>

theorem overnight_scenario_witness:
  "zones ''Asia/Manila'' = 480 \<and>
   (\<exists>m. calculateTimeMetrics zones
           (punches (isoInstant 2025 10 1 21 0 0 480) (isoInstant 2025 10 2 7 0 0 480))
           officeHours = Inr m
         \<and> nightDiffMinutes m = 480 \<and> overtimeMinutes m = 780 \<and> totalWorkedMinutes m = 600
         \<and> regularMinutes m = 0 \<and> lateMinutes m = 720)"
proof -
  have h: "zones ''Asia/Manila'' = 480" by (simp add: zones_def)
  show ?thesis using h overnight_scenario[of zones, OF h] by blast
qed

section \<open>Overtime, regular and total\<close>

lemma inverted_value:
  "calculateTimeMetrics zones
     (punches (isoInstant 2025 10 1 10 0 0 480) (isoInstant 2025 10 1 9 58 0 480)) officeHours =
   Inr \<lparr>totalWorkedHours = ''-0.03'', totalWorkedMinutes = - 2,
        regularHours = ''0.00'', regularMinutes = 0,
        overtimeHours = ''0.00'', overtimeMinutes = 0,
        nightDiffHours = ''0.00'', nightDiffMinutes = 0,
        lateMinutes = 60, undertimeMinutes = 482,
        punchInTime = 1759284000000, punchOutTime = 1759283880000,
        shiftStart = 1759280400000, shiftEnd = 1759312800000\<rparr>"
  by code_simp

text \<open>
  C3 as stated fails on two inputs whose punch-in is after the shift start: a punch-out
  two minutes before the punch-in (total \<open>-2\<close>, overtime and regular 0), and the overnight
  scenario, whose punch-in is after the shift end (overtime 780, total 600).
\<close>

theorem overtime_regular_total_counterexample:
  "(\<exists>m. calculateTimeMetrics zones
          (punches (isoInstant 2025 10 1 10 0 0 480) (isoInstant 2025 10 1 9 58 0 480))
          officeHours = Inr m
        \<and> shiftStart m \<le> punchInTime m
        \<and> totalWorkedMinutes m < overtimeMinutes m + regularMinutes m)
   \<and> (\<exists>m. calculateTimeMetrics zones
          (punches (isoInstant 2025 10 1 21 0 0 480) (isoInstant 2025 10 2 7 0 0 480))
          officeHours = Inr m
        \<and> shiftStart m \<le> punchInTime m
        \<and> totalWorkedMinutes m < overtimeMinutes m + regularMinutes m)"
  by (simp add: inverted_value scenario6_value)

text \<open>
  C3, as amended. When the punch-in is at or after the shift start and at or before the
  shift end, and the punch-out is not before the punch-in, overtimeMinutes plus
  regularMinutes is at most totalWorkedMinutes.
\<close>

theorem overtime_regular_le_total:
  assumes "calculateTimeMetrics db a s = Inr m"
    and "shiftStart m \<le> punchInTime m" and "punchInTime m \<le> shiftEnd m"
    and "punchInTime m \<le> punchOutTime m"
  shows "overtimeMinutes m + regularMinutes m \<le> totalWorkedMinutes m"
proof -
  from calculateTimeMetrics_Inr[OF assms(1)] obtain pin pout ss se
    where m: "m = metricsOf pin pout ss se" by blast
  show ?thesis
    using assms(2-4) steps_overtime_regular[of ss pin se pout]
    by (simp add: m metricsOf_fields)
qed

text \<open>The day-shift scenario meets the three conditions: 90 + 525 is at most 615.\<close>

theorem overtime_regular_le_total_witness:
  "calculateTimeMetrics zones
     (punches (isoInstant 2025 10 1 9 15 0 480) (isoInstant 2025 10 1 19 30 0 480)) officeHours =
   Inr \<lparr>totalWorkedHours = ''10.25'', totalWorkedMinutes = 615,
        regularHours = ''8.75'', regularMinutes = 525,
        overtimeHours = ''1.50'', overtimeMinutes = 90,
        nightDiffHours = ''0.00'', nightDiffMinutes = 0,
        lateMinutes = 15, undertimeMinutes = 0,
        punchInTime = 1759281300000, punchOutTime = 1759318200000,
        shiftStart = 1759280400000, shiftEnd = 1759312800000\<rparr>
   \<and> (1759280400000::int) \<le> 1759281300000 \<and> (1759281300000::int) \<le> 1759312800000
   \<and> (1759281300000::int) \<le> 1759318200000
   \<and> (90::int) + 525 \<le> 615"
  using overtime_regular_le_total[OF scenario5_value] scenario5_value by simp

section \<open>Regular minutes and the scheduled minutes\<close>

lemma night_shift_value:
  "calculateTimeMetrics zones
     (punches (isoInstant 2025 10 1 22 30 0 480) (isoInstant 2025 10 1 22 35 0 480)) nightShift =
   Inr \<lparr>totalWorkedHours = ''0.08'', totalWorkedMinutes = 5,
        regularHours = ''0.00'', regularMinutes = 0,
        overtimeHours = ''16.58'', overtimeMinutes = 995,
        nightDiffHours = ''0.08'', nightDiffMinutes = 5,
        lateMinutes = 30, undertimeMinutes = 0,
        punchInTime = 1759329000000, punchOutTime = 1759329300000,
        shiftStart = 1759327200000, shiftEnd = 1759269600000\<rparr>"
  by code_simp

lemma night_shift_cover_value:
  "calculateTimeMetrics zones
     (punches (isoInstant 2025 10 1 21 59 0 480) (isoInstant 2025 10 1 22 1 0 480)) nightShift =
   Inr \<lparr>totalWorkedHours = ''0.03'', totalWorkedMinutes = 2,
        regularHours = ''0.00'', regularMinutes = 0,
        overtimeHours = ''16.02'', overtimeMinutes = 961,
        nightDiffHours = ''0.02'', nightDiffMinutes = 1,
        lateMinutes = 0, undertimeMinutes = 0,
        punchInTime = 1759327140000, punchOutTime = 1759327260000,
        shiftStart = 1759327200000, shiftEnd = 1759269600000\<rparr>"
  by code_simp

lemma short_shift_value:
  "calculateTimeMetrics zones
     (punches (isoInstant 2025 10 1 8 59 0 480) (isoInstant 2025 10 1 9 6 0 480)) shortShift =
   Inr \<lparr>totalWorkedHours = ''0.12'', totalWorkedMinutes = 7,
        regularHours = ''0.08'', regularMinutes = 5,
        overtimeHours = ''0.02'', overtimeMinutes = 1,
        nightDiffHours = ''0.00'', nightDiffMinutes = 0,
        lateMinutes = 0, undertimeMinutes = 0,
        punchInTime = 1759280340000, punchOutTime = 1759280760000,
        shiftStart = 1759280400000, shiftEnd = 1759280700000\<rparr>"
  by code_simp

text \<open>
  C4 as stated fails for a schedule whose end is before its start on the clock: both
  shift instants are put on the punch-in's day, so \<^verbatim>\<open>scheduledMinutes\<close> is \<open>-960\<close> and
  regularMinutes, 0, is above it.
\<close>

theorem regular_range_counterexample:
  "\<exists>m. calculateTimeMetrics zones
          (punches (isoInstant 2025 10 1 22 30 0 480) (isoInstant 2025 10 1 22 35 0 480))
          nightShift = Inr m
        \<and> punchInTime m < punchOutTime m
        \<and> regularMinutes m = 0 \<and> scheduledMinutes m = - 960
        \<and> \<not> (0 \<le> regularMinutes m \<and> regularMinutes m \<le> scheduledMinutes m)"
  by (simp add: night_shift_value scheduledMinutes_def absFloor_def)

text \<open>
  C4, as amended. Whenever the call returns and the resolved shift end is not before the
  resolved shift start, regularMinutes lies between 0 and \<^verbatim>\<open>scheduledMinutes\<close>.
\<close>

theorem regular_in_range:
  assumes "calculateTimeMetrics db a s = Inr m" and "shiftStart m \<le> shiftEnd m"
  shows "0 \<le> regularMinutes m \<and> regularMinutes m \<le> scheduledMinutes m"
proof -
  from calculateTimeMetrics_Inr[OF assms(1)] obtain pin pout ss se
    where m: "m = metricsOf pin pout ss se" by blast
  show ?thesis
    using assms(2) regular_bounds[of ss se pin pout]
    by (simp add: m metricsOf_fields scheduledMinutes_metricsOf)
qed

text \<open>A five-minute shift covered by the punches: regularMinutes 5 out of 5.\<close>

theorem regular_in_range_witness:
  "calculateTimeMetrics zones
     (punches (isoInstant 2025 10 1 8 59 0 480) (isoInstant 2025 10 1 9 6 0 480)) shortShift =
   Inr \<lparr>totalWorkedHours = ''0.12'', totalWorkedMinutes = 7,
        regularHours = ''0.08'', regularMinutes = 5,
        overtimeHours = ''0.02'', overtimeMinutes = 1,
        nightDiffHours = ''0.00'', nightDiffMinutes = 0,
        lateMinutes = 0, undertimeMinutes = 0,
        punchInTime = 1759280340000, punchOutTime = 1759280760000,
        shiftStart = 1759280400000, shiftEnd = 1759280700000\<rparr>
   \<and> (1759280400000::int) \<le> 1759280700000
   \<and> (0::int) \<le> 5 \<and> (5::int) \<le> absFloor (1759280700000 - 1759280400000) 60000"
  using regular_in_range[OF short_shift_value] short_shift_value
  by (simp add: scheduledMinutes_def)

section \<open>Full coverage of the shift\<close>

text \<open>
  C5 as stated fails for the night shift 22:00 to 06:00: the punches 21:59 to 22:01 start
  before the resolved shift start and end after the resolved shift end (06:00 of the same
  day), yet regularMinutes is 0 and \<^verbatim>\<open>scheduledMinutes\<close> is \<open>-960\<close>.
\<close>

theorem full_coverage_counterexample:
  "\<exists>m. calculateTimeMetrics zones
          (punches (isoInstant 2025 10 1 21 59 0 480) (isoInstant 2025 10 1 22 1 0 480))
          nightShift = Inr m
        \<and> punchInTime m \<le> shiftStart m \<and> shiftEnd m \<le> punchOutTime m
        \<and> regularMinutes m = 0 \<and> scheduledMinutes m = - 960
        \<and> regularMinutes m \<noteq> scheduledMinutes m"
  by (simp add: night_shift_cover_value scheduledMinutes_def absFloor_def)

text \<open>
  C5, as amended. When the punch-in is at or before the shift start, the punch-out at or
  after the shift end, and the shift end not before the shift start, regularMinutes equals
  \<^verbatim>\<open>scheduledMinutes\<close>, and lateMinutes and undertimeMinutes are 0.
\<close>

theorem full_coverage:
  assumes "calculateTimeMetrics db a s = Inr m"
    and "punchInTime m \<le> shiftStart m" and "shiftEnd m \<le> punchOutTime m"
    and "shiftStart m \<le> shiftEnd m"
  shows "regularMinutes m = scheduledMinutes m \<and> lateMinutes m = 0 \<and> undertimeMinutes m = 0"
proof -
  from calculateTimeMetrics_Inr[OF assms(1)] obtain pin pout ss se
    where m: "m = metricsOf pin pout ss se" by blast
  show ?thesis
    using assms(2-4) full_shift[of pin ss se pout]
    by (simp add: m metricsOf_fields scheduledMinutes_metricsOf)
qed

text \<open>The five-minute shift again: 08:59 to 09:06 covers 09:00 to 09:05.\<close>

theorem full_coverage_witness:
  "calculateTimeMetrics zones
     (punches (isoInstant 2025 10 1 8 59 0 480) (isoInstant 2025 10 1 9 6 0 480)) shortShift =
   Inr \<lparr>totalWorkedHours = ''0.12'', totalWorkedMinutes = 7,
        regularHours = ''0.08'', regularMinutes = 5,
        overtimeHours = ''0.02'', overtimeMinutes = 1,
        nightDiffHours = ''0.00'', nightDiffMinutes = 0,
        lateMinutes = 0, undertimeMinutes = 0,
        punchInTime = 1759280340000, punchOutTime = 1759280760000,
        shiftStart = 1759280400000, shiftEnd = 1759280700000\<rparr>
   \<and> (1759280340000::int) \<le> 1759280400000 \<and> (1759280700000::int) \<le> 1759280760000
   \<and> (1759280400000::int) \<le> 1759280700000
   \<and> (5::int) = absFloor (1759280700000 - 1759280400000) 60000"
  using full_coverage[OF short_shift_value] short_shift_value
  by (simp add: scheduledMinutes_def)

section \<open>Failures\<close>

lemma missing_punch:
  assumes "punchIn a = None \<or> punchOut a = None"
  shows "calculateTimeMetrics db a s = Inl (Error ''Both punchIn and punchOut are required'')"
  using assms by (auto simp: calculateTimeMetrics_def Let_def split: option.splits)

lemma missing_time:
  assumes "punchIn a = Some pin" "punchOut a = Some pout" and "start s = None \<or> end' s = None"
  shows "\<exists>msg. calculateTimeMetrics db a s = Inl (TypeError msg)"
proof -
  let ?z = "case timezone s of ZUndefined \<Rightarrow> ZName ''UTC'' | z \<Rightarrow> z"
  let ?d = "moment_tz db pin ?z"
  show ?thesis
  proof (cases "getScheduledTime ?d (start s) ?z")
    case (Inl e)
    with getScheduledTime_error[OF Inl] show ?thesis
      using assms(1,2) by (auto simp: calculateTimeMetrics_def Let_def)
  next
    case (Inr ss)
    have "start s \<noteq> None"
    proof
      assume "start s = None"
      with Inr getScheduledTime_no_time[of ?d ?z] show False by auto
    qed
    with assms(3) have "end' s = None" by simp
    with getScheduledTime_no_time[of ?d ?z] obtain msg where
      "getScheduledTime ?d (end' s) ?z = Inl (TypeError msg)" by auto
    with Inr show ?thesis
      using assms(1,2) by (auto simp: calculateTimeMetrics_def Let_def)
  qed
qed

lemma empty_zone_value:
  "isl (calculateTimeMetrics zones a
          \<lparr>start = Some ''09:00'', end' = Some ''18:00'', timezone = ZName []\<rparr>)"
proof (cases "punchIn a = None \<or> punchOut a = None")
  case True
  from missing_punch[OF this] show ?thesis by simp
next
  case False
  then obtain pin pout where p: "punchIn a = Some pin" "punchOut a = Some pout" by auto
  let ?s = "\<lparr>start = Some ''09:00'', end' = Some ''18:00'', timezone = ZName []\<rparr>"
  have "\<not> zoneNamed (timezone ?s)" by (simp add: zoneNamed_def)
  from calculateTimeMetrics_unnamed[OF p this, of zones] show ?thesis by auto
qed

lemma no_colon_value:
  "isl (calculateTimeMetrics zones a
          \<lparr>start = Some ''0900'', end' = Some ''18:00'', timezone = ZName ''Asia/Manila''\<rparr>)"
  by (simp add: calculateTimeMetrics_def Let_def moment_tz_def getScheduledTime_def Number_def
        is_digit_def split: option.splits)

text \<open>
  C6 as stated fails: with both punches there and a schedule that has its start and its
  end, the call still fails when the \<^verbatim>\<open>timezone\<close> is the empty string (the punches get
  no zone and \<^verbatim>\<open>dateMoment.clone()\<close> throws), and when the start is \<^verbatim>\<open>0900\<close>, a time
  string without a colon.
\<close>

theorem fails_with_nothing_missing_counterexample:
  "isl (calculateTimeMetrics zones
          (punches (isoInstant 2025 10 1 9 0 0 480) (isoInstant 2025 10 1 18 0 0 480))
          \<lparr>start = Some ''09:00'', end' = Some ''18:00'', timezone = ZName []\<rparr>)
   \<and> isl (calculateTimeMetrics zones
          (punches (isoInstant 2025 10 1 9 0 0 480) (isoInstant 2025 10 1 18 0 0 480))
          \<lparr>start = Some ''0900'', end' = Some ''18:00'', timezone = ZName ''Asia/Manila''\<rparr>)
   \<and> punchIn (punches (isoInstant 2025 10 1 9 0 0 480) (isoInstant 2025 10 1 18 0 0 480))
         \<noteq> None
   \<and> punchOut (punches (isoInstant 2025 10 1 9 0 0 480) (isoInstant 2025 10 1 18 0 0 480))
         \<noteq> None"
  by (simp add: empty_zone_value no_colon_value punches_def)

text \<open>
  C6, as amended. The call fails (returns the error to its caller instead of a result)
  whenever punchIn or punchOut is missing or the schedule lacks its start or its end: a
  missing punch is reported by the error "Both punchIn and punchOut are required", a
  missing start or end (with both punches there) by a \<^verbatim>\<open>TypeError\<close>. For a schedule
  whose time strings, when present, are in the \<^verbatim>\<open>HH:MM\<close> format and whose
  \<^verbatim>\<open>timezone\<close> is not there or a string that is not empty, the call fails in no other
  case.
\<close>

theorem fails_when_missing:
  "(punchIn a = None \<or> punchOut a = None \<or> start s = None \<or> end' s = None \<longrightarrow>
      isl (calculateTimeMetrics db a s))
   \<and> (wellFormed (start s) \<and> wellFormed (end' s) \<and> zoneNamed (timezone s) \<longrightarrow>
        (isl (calculateTimeMetrics db a s) \<longleftrightarrow>
           punchIn a = None \<or> punchOut a = None \<or> start s = None \<or> end' s = None))
   \<and> (punchIn a = None \<or> punchOut a = None \<longrightarrow>
        calculateTimeMetrics db a s = Inl (Error ''Both punchIn and punchOut are required''))
   \<and> (punchIn a \<noteq> None \<and> punchOut a \<noteq> None \<and> (start s = None \<or> end' s = None) \<longrightarrow>
        (\<exists>msg. calculateTimeMetrics db a s = Inl (TypeError msg)))"
proof -
  have punch: "punchIn a = None \<or> punchOut a = None \<longrightarrow>
      calculateTimeMetrics db a s = Inl (Error ''Both punchIn and punchOut are required'')"
    using missing_punch[of a db s] by blast
  have time: "punchIn a \<noteq> None \<and> punchOut a \<noteq> None \<and> (start s = None \<or> end' s = None) \<longrightarrow>
      (\<exists>msg. calculateTimeMetrics db a s = Inl (TypeError msg))"
    using missing_time[of a _ _ s db] by auto
  have fails: "punchIn a = None \<or> punchOut a = None \<or> start s = None \<or> end' s = None \<longrightarrow>
      isl (calculateTimeMetrics db a s)"
  proof (cases "punchIn a = None \<or> punchOut a = None")
    case True
    with punch show ?thesis by simp
  next
    case False
    with time show ?thesis by auto
  qed
  have only: "isl (calculateTimeMetrics db a s) \<longrightarrow>
      punchIn a = None \<or> punchOut a = None \<or> start s = None \<or> end' s = None"
    if wf: "wellFormed (start s)" "wellFormed (end' s)" "zoneNamed (timezone s)"
  proof (rule ccontr)
    assume "\<not> ?thesis"
    then have f: "isl (calculateTimeMetrics db a s)"
      and "punchIn a \<noteq> None" "punchOut a \<noteq> None" "start s \<noteq> None" "end' s \<noteq> None"
      by auto
    then obtain pin pout t1 t2 where
      p: "punchIn a = Some pin" "punchOut a = Some pout" "start s = Some t1" "end' s = Some t2"
      by auto
    with wf have h: "hhmm t1" "hhmm t2" by (simp_all add: wellFormed_def)
    from calculateTimeMetrics_returns[OF p(1,2,3) h(1) p(4) h(2) wf(3), of db]
    have "\<not> isl (calculateTimeMetrics db a s)" by auto
    with f show False by simp
  qed
  show ?thesis
  proof (intro conjI)
    show "punchIn a = None \<or> punchOut a = None \<or> start s = None \<or> end' s = None \<longrightarrow>
        isl (calculateTimeMetrics db a s)"
      by (rule fails)
    show "wellFormed (start s) \<and> wellFormed (end' s) \<and> zoneNamed (timezone s) \<longrightarrow>
        (isl (calculateTimeMetrics db a s) \<longleftrightarrow>
           punchIn a = None \<or> punchOut a = None \<or> start s = None \<or> end' s = None)"
    proof
      assume "wellFormed (start s) \<and> wellFormed (end' s) \<and> zoneNamed (timezone s)"
      then have "isl (calculateTimeMetrics db a s) \<longrightarrow>
          punchIn a = None \<or> punchOut a = None \<or> start s = None \<or> end' s = None"
        by (intro only) simp_all
      with fails show "isl (calculateTimeMetrics db a s) \<longleftrightarrow>
          punchIn a = None \<or> punchOut a = None \<or> start s = None \<or> end' s = None"
        by auto
    qed
    show "punchIn a = None \<or> punchOut a = None \<longrightarrow>
        calculateTimeMetrics db a s = Inl (Error ''Both punchIn and punchOut are required'')"
      by (rule punch)
    show "punchIn a \<noteq> None \<and> punchOut a \<noteq> None \<and> (start s = None \<or> end' s = None) \<longrightarrow>
        (\<exists>msg. calculateTimeMetrics db a s = Inl (TypeError msg))"
      by (rule time)
  qed
qed

text \<open>A missing punch-out, a missing end, and a complete input.\<close>

theorem fails_when_missing_witness:
  "calculateTimeMetrics zones
        \<lparr>punchIn = Some (isoInstant 2025 10 1 9 15 0 480), punchOut = None, others = Map.empty\<rparr>
        officeHours = Inl (Error ''Both punchIn and punchOut are required'')
   \<and> isl (calculateTimeMetrics zones
          (punches (isoInstant 2025 10 1 9 0 0 480) (isoInstant 2025 10 1 18 0 0 480))
          (officeHours\<lparr>end' := None\<rparr>))
   \<and> \<not> isl (calculateTimeMetrics zones
          (punches (isoInstant 2025 10 1 9 0 0 480) (isoInstant 2025 10 1 18 0 0 480))
          officeHours)"
proof -
  have h: "wellFormed (start officeHours) \<and> wellFormed (end' officeHours)
      \<and> zoneNamed (timezone officeHours)"
    by (simp add: wellFormed_def zoneNamed_def officeHours_def hhmm_def is_digit_def)
  show ?thesis
    using h
      fails_when_missing[of
        "\<lparr>punchIn = Some (isoInstant 2025 10 1 9 15 0 480), punchOut = None, others = Map.empty\<rparr>"
        officeHours zones]
      fails_when_missing[of
        "punches (isoInstant 2025 10 1 9 0 0 480) (isoInstant 2025 10 1 18 0 0 480)"
        "officeHours\<lparr>end' := None\<rparr>" zones]
      fails_when_missing[of
        "punches (isoInstant 2025 10 1 9 0 0 480) (isoInstant 2025 10 1 18 0 0 480)"
        officeHours zones]
    by (simp add: punches_def officeHours_def)
qed

section \<open>Inverted intervals\<close>

text \<open>
  C9 as stated fails: with a punch-out two minutes before the punch-in, both punches there
  and a schedule with its start and its end, the call fails when the \<^verbatim>\<open>timezone\<close> is
  the empty string, and when the start is \<^verbatim>\<open>0900\<close>.
\<close>

theorem inverted_call_fails_counterexample:
  "isoInstant 2025 10 1 9 58 0 480 \<le> isoInstant 2025 10 1 10 0 0 480
   \<and> isl (calculateTimeMetrics zones
          (punches (isoInstant 2025 10 1 10 0 0 480) (isoInstant 2025 10 1 9 58 0 480))
          \<lparr>start = Some ''09:00'', end' = Some ''18:00'', timezone = ZName []\<rparr>)
   \<and> isl (calculateTimeMetrics zones
          (punches (isoInstant 2025 10 1 10 0 0 480) (isoInstant 2025 10 1 9 58 0 480))
          \<lparr>start = Some ''0900'', end' = Some ''18:00'', timezone = ZName ''Asia/Manila''\<rparr>)"
  by (simp add: empty_zone_value no_colon_value isoInstant_def daysFromCivil_def)

text \<open>
  C9, as amended. Whenever the call returns and the punch-out is at or before the
  punch-in, the result has nightDiffMinutes 0, regularMinutes 0 and totalWorkedMinutes
  at most 0. The call does return such a result when both punches are present, the
  punch-out is at or before the punch-in, the schedule has its start and end in the
  \<^verbatim>\<open>HH:MM\<close> format, and its \<^verbatim>\<open>timezone\<close> is not there or a string that is not empty.
\<close>

theorem inverted_interval_result:
  "(calculateTimeMetrics db a s = Inr m \<and> punchOutTime m \<le> punchInTime m \<longrightarrow>
      nightDiffMinutes m = 0 \<and> regularMinutes m = 0 \<and> totalWorkedMinutes m \<le> 0)
   \<and> (punchIn a = Some pin \<and> punchOut a = Some pout \<and> pout \<le> pin
        \<and> start s = Some t1 \<and> hhmm t1 \<and> end' s = Some t2 \<and> hhmm t2
        \<and> zoneNamed (timezone s) \<longrightarrow>
        (\<exists>r. calculateTimeMetrics db a s = Inr r
           \<and> nightDiffMinutes r = 0 \<and> regularMinutes r = 0 \<and> totalWorkedMinutes r \<le> 0))"
proof (intro conjI impI)
  assume h: "calculateTimeMetrics db a s = Inr m \<and> punchOutTime m \<le> punchInTime m"
  from calculateTimeMetrics_Inr[of db a s m] h obtain pinM poutM ss se
    where m: "m = metricsOf pinM poutM ss se" by blast
  from h have le: "valueOf poutM \<le> valueOf pinM" by (simp add: m metricsOf_fields)
  show "nightDiffMinutes m = 0" "regularMinutes m = 0" "totalWorkedMinutes m \<le> 0"
    using inverted_steps[OF le] by (simp_all add: m metricsOf_fields)
next
  assume h: "punchIn a = Some pin \<and> punchOut a = Some pout \<and> pout \<le> pin
        \<and> start s = Some t1 \<and> hhmm t1 \<and> end' s = Some t2 \<and> hhmm t2
        \<and> zoneNamed (timezone s)"
  then have p: "punchIn a = Some pin" "punchOut a = Some pout" "start s = Some t1" "hhmm t1"
    "end' s = Some t2" "hhmm t2" "zoneNamed (timezone s)" by simp_all
  from calculateTimeMetrics_returns[OF p, of db] obtain ss se where
    r: "calculateTimeMetrics db a s =
          Inr (metricsOf (tz db pin (zoneOf s)) (tz db pout (zoneOf s)) ss se)"
    by auto
  have le: "valueOf (tz db pout (zoneOf s)) \<le> valueOf (tz db pin (zoneOf s))"
    using h by (simp add: tz_def)
  show "\<exists>r. calculateTimeMetrics db a s = Inr r
           \<and> nightDiffMinutes r = 0 \<and> regularMinutes r = 0 \<and> totalWorkedMinutes r \<le> 0"
    using inverted_steps[OF le] by (simp add: r metricsOf_fields)
qed

text \<open>A punch-out two minutes before the punch-in, in the office-hours schedule.\<close>

theorem inverted_interval_result_witness:
  "\<exists>m. calculateTimeMetrics zones
          (punches (isoInstant 2025 10 1 10 0 0 480) (isoInstant 2025 10 1 9 58 0 480))
          officeHours = Inr m
        \<and> punchOutTime m \<le> punchInTime m
        \<and> nightDiffMinutes m = 0 \<and> regularMinutes m = 0 \<and> totalWorkedMinutes m \<le> 0"
proof -
  let ?pin = "isoInstant 2025 10 1 10 0 0 480" and ?pout = "isoInstant 2025 10 1 9 58 0 480"
  have h: "punchIn (punches ?pin ?pout) = Some ?pin \<and> punchOut (punches ?pin ?pout) = Some ?pout
      \<and> ?pout \<le> ?pin
      \<and> start officeHours = Some ''09:00'' \<and> hhmm ''09:00''
      \<and> end' officeHours = Some ''18:00'' \<and> hhmm ''18:00''
      \<and> zoneNamed (timezone officeHours)"
    by (simp add: punches_def officeHours_def hhmm_def is_digit_def zoneNamed_def
          isoInstant_def daysFromCivil_def)
  from inverted_interval_result[of zones "punches ?pin ?pout" officeHours _ ?pin ?pout
      "''09:00''" "''18:00''"] h
  obtain r where r: "calculateTimeMetrics zones (punches ?pin ?pout) officeHours = Inr r"
    "nightDiffMinutes r = 0" "regularMinutes r = 0" "totalWorkedMinutes r \<le> 0"
    by blast
  from r(1) inverted_value have "punchOutTime r \<le> punchInTime r" by auto
  with r show ?thesis by blast
qed

section \<open>The night differential\<close>

subsection \<open>The loop counts minute steps\<close>

lemma minuteStep_0: "minuteStep c 0 = c"
  by (simp add: minuteStep_def)

lemma minuteStep_Suc: "minuteStep c (Suc k) = minuteStep (add_minute c) k"
  by (simp add: minuteStep_def add_minute_def algebra_simps)

lemma upt_0_Suc: "[0..<Suc k] = 0 # map Suc [0..<k]"
  by (simp add: upt_conv_Cons map_Suc_upt del: upt_Suc)

lemma nightAmong_0: "nightAmong c 0 = 0"
  by (simp add: nightAmong_def)

lemma nightAmong_Suc:
  "nightAmong c (Suc k) = (if nightHour c then 1 else 0) + nightAmong (add_minute c) k"
  by (simp add: nightAmong_def upt_0_Suc filter_map o_def minuteStep_0 minuteStep_Suc
        del: upt_Suc)

lemma nightAmong_last:
  "nightAmong c (Suc k) = nightAmong c k + (if nightHour (minuteStep c k) then 1 else 0)"
  by (simp add: nightAmong_def)

lemma nightAmong_mono: "n \<le> n' \<Longrightarrow> nightAmong c n \<le> nightAmong c n'"
proof (induction n' arbitrary: n)
  case 0
  then show ?case by simp
next
  case (Suc n')
  show ?case
  proof (cases "n = Suc n'")
    case True
    then show ?thesis by simp
  next
    case False
    with Suc.prems have "n \<le> n'" by simp
    from Suc.IH[OF this] show ?thesis by (simp add: nightAmong_last)
  qed
qed

lemma startedMinutes_done: "pout \<le> pin \<Longrightarrow> startedMinutes pin pout = 0"
  by (simp add: startedMinutes_def)

lemma startedMinutes_step:
  "pin < pout \<Longrightarrow> startedMinutes pin pout = Suc (startedMinutes (pin + 60000) pout)"
  unfolding startedMinutes_def by linarith

lemma startedMinutes_mono:
  "pin' \<le> pin \<Longrightarrow> pout \<le> pout' \<Longrightarrow> startedMinutes pin pout \<le> startedMinutes pin' pout'"
  unfolding startedMinutes_def by (intro nat_mono zdiv_mono1) auto

lemma nightLoop_count:
  "nightLoop c e n = n + int (nightAmong c (startedMinutes (valueOf c) (valueOf e)))"
proof (induction c e n rule: nightLoop.induct)
  case (1 c e n)
  show ?case
  proof (cases "isBefore c e")
    case True
    then have lt: "valueOf c < valueOf e" by (simp add: isBefore_def)
    have v: "valueOf (add_minute c) = valueOf c + 60000" by (simp add: add_minute_def)
    show ?thesis
      using "1.IH"[OF True]
      by (simp add: nightLoop_step[OF True] startedMinutes_step[OF lt] nightAmong_Suc v
            nightHour_def)
  next
    case False
    then have "valueOf e \<le> valueOf c" by (simp add: isBefore_def)
    then show ?thesis
      by (simp add: nightLoop_done[OF False] startedMinutes_done nightAmong_0)
  qed
qed

lemma calculateNightDifferential_count:
  "calculateNightDifferential pin pout =
     int (nightAmong pin (startedMinutes (valueOf pin) (valueOf pout)))"
  by (simp add: calculateNightDifferential_def nightLoop_count)

lemma whole_started:
  assumes "(pout - pin) mod 60000 = 0"
  shows "startedMinutes pin pout = wholeMinutes pin pout"
proof -
  from assms obtain q where q: "pout - pin = 60000 * q"
    by (auto simp: mod_eq_0_iff_dvd)
  have "(60000 * q + 59999) div 60000 = q" by simp
  then show ?thesis
    by (simp add: startedMinutes_def wholeMinutes_def q)
qed

subsection \<open>The clock by minutes\<close>

lemma hour_by_minute: "hour m = ((localMillis m div 60000) div 60) mod 24"
proof -
  have "localMillis m div 3600000 = localMillis m div (60000 * 60)" by simp
  also have "\<dots> = (localMillis m div 60000) div 60"
    by (rule zdiv_zmult2_eq) simp
  finally show ?thesis by (simp add: hour_def)
qed

lemma localMillis_minuteStep:
  "localMillis (minuteStep m k) div 60000 = localMillis m div 60000 + int k"
  by (simp add: localMillis_def minuteStep_def)

lemma nightHour_same_minute:
  assumes "localMillis a div 60000 = localMillis b div 60000"
  shows "nightHour (minuteStep a k) = nightHour (minuteStep b k)"
  by (simp add: nightHour_def hour_by_minute localMillis_minuteStep assms)

lemma nightAmong_same_minute:
  assumes "localMillis a div 60000 = localMillis b div 60000"
  shows "nightAmong a n = nightAmong b n"
  by (simp add: nightAmong_def nightHour_same_minute[OF assms])

lemma nightAmong_le_Suc: "nightAmong c (Suc k) \<le> Suc (nightAmong c k)"
  by (simp add: nightAmong_last)

lemma div_minute_back_small:
  assumes "0 \<le> r" "r \<le> L mod 60000"
  shows "(L - r) div 60000 = L div (60000::int)"
proof (rule int_div_pos_eq)
  show "L - r = 60000 * (L div 60000) + (L mod 60000 - r)"
    by (simp add: algebra_simps)
  show "0 \<le> L mod 60000 - r" using assms by simp
  have "L mod 60000 < 60000" by simp
  then show "L mod 60000 - r < 60000" using assms by linarith
qed

lemma div_minute_back_large:
  assumes "L mod 60000 < r" "r < 60000"
  shows "(L - r + 60000) div 60000 = L div (60000::int)"
proof (rule int_div_pos_eq)
  show "L - r + 60000 = 60000 * (L div 60000) + (L mod 60000 - r + 60000)"
    by (simp add: algebra_simps)
  show "0 \<le> L mod 60000 - r + 60000" using assms by simp
  have "0 \<le> L mod 60000" by simp
  show "L mod 60000 - r + 60000 < 60000" using assms by linarith
qed

subsection \<open>Moving the punch-in back\<close>

lemma front_whole_minute:
  "calculateNightDifferential c e
     \<le> calculateNightDifferential (c\<lparr>valueOf := valueOf c - 60000\<rparr>) e"
proof (cases "valueOf c - 60000 < valueOf e")
  case True
  have am: "add_minute (c\<lparr>valueOf := valueOf c - 60000\<rparr>) = c"
    by (simp add: add_minute_def)
  show ?thesis
    using startedMinutes_step[OF True]
    by (simp add: calculateNightDifferential_count nightAmong_Suc am)
next
  case False
  then have "valueOf e \<le> valueOf c" by simp
  then show ?thesis
    by (simp add: calculateNightDifferential_count startedMinutes_done nightAmong_0)
qed

lemma front_minutes:
  "calculateNightDifferential c e
     \<le> calculateNightDifferential (c\<lparr>valueOf := valueOf c - 60000 * int j\<rparr>) e"
proof (induction j)
  case 0
  then show ?case by simp
next
  case (Suc j)
  have "calculateNightDifferential (c\<lparr>valueOf := valueOf c - 60000 * int j\<rparr>) e
          \<le> calculateNightDifferential (c\<lparr>valueOf := valueOf c - 60000 * int (Suc j)\<rparr>) e"
    using front_whole_minute[of "c\<lparr>valueOf := valueOf c - 60000 * int j\<rparr>" e]
    by (simp add: algebra_simps)
  with Suc.IH show ?case by linarith
qed

lemma front_part:
  assumes r: "0 \<le> r" "r < 60000"
    and night: "nightHour (c\<lparr>valueOf := valueOf c - r\<rparr>)"
  shows "calculateNightDifferential c e
           \<le> calculateNightDifferential (c\<lparr>valueOf := valueOf c - r\<rparr>) e"
proof (cases "r \<le> localMillis c mod 60000")
  case True
  let ?c' = "c\<lparr>valueOf := valueOf c - r\<rparr>"
  have lm: "localMillis ?c' = localMillis c - r" by (simp add: localMillis_def)
  have same: "localMillis ?c' div 60000 = localMillis c div 60000"
    using div_minute_back_small[OF r(1) True] by (simp add: lm)
  have "startedMinutes (valueOf c) (valueOf e) \<le> startedMinutes (valueOf c - r) (valueOf e)"
    using r(1) by (intro startedMinutes_mono) auto
  from nightAmong_mono[OF this, of ?c']
  show ?thesis
    by (simp add: calculateNightDifferential_count nightAmong_same_minute[OF same])
next
  case False
  let ?c' = "c\<lparr>valueOf := valueOf c - r\<rparr>"
  have lm: "localMillis (add_minute ?c') = localMillis c - r + 60000"
    by (simp add: localMillis_def add_minute_def)
  have same: "localMillis (add_minute ?c') div 60000 = localMillis c div 60000"
    using div_minute_back_large[of "localMillis c" r] False r(2) by (simp add: lm)
  show ?thesis
  proof (cases "valueOf c < valueOf e")
    case True
    then have lt': "valueOf c - r < valueOf e" using r(1) by simp
    let ?K0 = "startedMinutes (valueOf c + 60000) (valueOf e)"
    let ?K1 = "startedMinutes (valueOf c - r + 60000) (valueOf e)"
    have k: "?K0 \<le> ?K1" using r(1) by (intro startedMinutes_mono) auto
    have "nightAmong c (Suc ?K0) \<le> Suc (nightAmong c ?K0)" by (rule nightAmong_le_Suc)
    also have "\<dots> \<le> Suc (nightAmong c ?K1)" using nightAmong_mono[OF k, of c] by simp
    also have "\<dots> = nightAmong ?c' (Suc ?K1)"
      using night by (simp add: nightAmong_Suc nightAmong_same_minute[OF same])
    finally show ?thesis
      by (simp add: calculateNightDifferential_count startedMinutes_step[OF True]
            startedMinutes_step[OF lt'])
  next
    case False
    then show ?thesis
      by (simp add: calculateNightDifferential_count startedMinutes_done nightAmong_0)
  qed
qed

lemma front_extension:
  assumes le: "p' \<le> valueOf c"
    and night: "\<forall>t. p' \<le> t \<and> t < valueOf c \<longrightarrow> nightHour (c\<lparr>valueOf := t\<rparr>)"
  shows "calculateNightDifferential c e \<le> calculateNightDifferential (c\<lparr>valueOf := p'\<rparr>) e"
proof -
  define d where "d = valueOf c - p'"
  define r where "r = d mod 60000"
  define j where "j = nat (d div 60000)"
  have d0: "0 \<le> d" using le by (simp add: d_def)
  have r0: "0 \<le> r" "r < 60000" by (simp_all add: r_def)
  have rd: "r \<le> d" using d0 by (simp add: r_def zmod_le_nonneg_dividend)
  have dj: "d = 60000 * int j + r"
    using d0 by (simp add: j_def r_def pos_imp_zdiv_nonneg_iff)
  let ?c1 = "c\<lparr>valueOf := valueOf c - r\<rparr>"
  have step1: "calculateNightDifferential c e \<le> calculateNightDifferential ?c1 e"
  proof (cases "r = 0")
    case True
    then show ?thesis by simp
  next
    case False
    with r0 have "0 < r" by simp
    then have "p' \<le> valueOf c - r \<and> valueOf c - r < valueOf c"
      using rd by (simp add: d_def)
    with night have "nightHour ?c1" by blast
    from front_part[OF r0 this] show ?thesis .
  qed
  have "?c1\<lparr>valueOf := valueOf ?c1 - 60000 * int j\<rparr> = c\<lparr>valueOf := p'\<rparr>"
    using dj by (simp add: d_def)
  with front_minutes[of ?c1 e j] have
    "calculateNightDifferential ?c1 e \<le> calculateNightDifferential (c\<lparr>valueOf := p'\<rparr>) e"
    by simp
  with step1 show ?thesis by linarith
qed

lemma back_extension:
  assumes "valueOf e \<le> valueOf e'"
  shows "calculateNightDifferential c e \<le> calculateNightDifferential c e'"
proof -
  have "startedMinutes (valueOf c) (valueOf e) \<le> startedMinutes (valueOf c) (valueOf e')"
    using assms by (intro startedMinutes_mono) auto
  from nightAmong_mono[OF this, of c] show ?thesis
    by (simp add: calculateNightDifferential_count)
qed

lemma startedMinutes_iff:
  "k < startedMinutes pin pout \<longleftrightarrow> pin + 60000 * int k < pout"
proof -
  have "int k < (pout - pin + 59999) div 60000 \<longleftrightarrow> 60000 * int k < pout - pin"
    by linarith
  then show ?thesis
    unfolding startedMinutes_def by linarith
qed

lemma nightAmong_card:
  "nightAmong c n = card {k. k < n \<and> nightHour (minuteStep c k)}"
proof -
  have "{i. i < length [0..<n] \<and> nightHour (minuteStep c ([0..<n] ! i))}
          = {k. k < n \<and> nightHour (minuteStep c k)}"
    by auto
  then show ?thesis
    by (simp add: nightAmong_def length_filter_conv_card)
qed

lemma night_steps_card:
  "nightAmong (tz db pin z) (startedMinutes pin pout) =
     card {k. pin + 60000 * int k < pout \<and> nightHour (tz db (pin + 60000 * int k) z)}"
  by (simp add: nightAmong_card startedMinutes_iff minuteStep_def tz_def)

lemma calculateTimeMetrics_night:
  assumes "calculateTimeMetrics db a s = Inr m"
  shows "nightDiffMinutes m =
           calculateNightDifferential (tz db (punchInTime m) (zoneOf s))
                                      (tz db (punchOutTime m) (zoneOf s))"
  using assms
  by (auto simp: calculateTimeMetrics_def Let_def zoneOf_def metricsOf_fields tz_def
        moment_tz_def split: option.splits sum.splits zonename.splits if_splits)

lemma half_minute_value:
  "calculateTimeMetrics zones
     (punches (isoInstant 2025 10 1 22 0 0 480) (isoInstant 2025 10 1 22 0 30 480)) officeHours =
   Inr \<lparr>totalWorkedHours = ''0.00'', totalWorkedMinutes = 0,
        regularHours = ''0.00'', regularMinutes = 0,
        overtimeHours = ''4.00'', overtimeMinutes = 240,
        nightDiffHours = ''0.02'', nightDiffMinutes = 1,
        lateMinutes = 780, undertimeMinutes = 0,
        punchInTime = 1759327200000, punchOutTime = 1759327230000,
        shiftStart = 1759280400000, shiftEnd = 1759312800000\<rparr>"
  by code_simp

text \<open>
  C8 as stated fails on a punch interval of half a minute at 22:00: no whole minute lies
  in it (the count in the words of the specification is 0), and nightDiffMinutes is 1.
\<close>

theorem whole_minutes_counterexample:
  "\<exists>m. calculateTimeMetrics zones
          (punches (isoInstant 2025 10 1 22 0 0 480) (isoInstant 2025 10 1 22 0 30 480))
          officeHours = Inr m
        \<and> nightDiffMinutes m = 1
        \<and> punchOutTime m - punchInTime m = 30000
        \<and> wholeNightMinutes (tz zones (punchInTime m) ''Asia/Manila'')
                               (tz zones (punchOutTime m) ''Asia/Manila'') = 0
        \<and> nightDiffMinutes m \<noteq>
              int (wholeNightMinutes (tz zones (punchInTime m) ''Asia/Manila'')
                                     (tz zones (punchOutTime m) ''Asia/Manila''))"
  by (simp add: half_minute_value wholeNightMinutes_def wholeMinutes_def tz_def nightAmong_def)

text \<open>
  C8, as amended. nightDiffMinutes is the number of minute steps \<open>punchIn + k\<close> minutes
  (\<open>k = 0, 1, \<dots>\<close>) before punchOut whose local clock hour is at least 22 or below 6, so
  that a last, partial minute counts as a whole one (stated with the set of these \<open>k\<close>,
  and with the count that can be evaluated); when the interval is a whole number of
  minutes this is the count of whole minutes of the specification. It does not decrease
  when the interval is extended: at its end by any interval, at its start by an interval
  that lies entirely within the night hours.
\<close>

theorem night_minutes_counted:
  assumes "calculateTimeMetrics db a s = Inr m"
  shows "nightDiffMinutes m =
           int (card {k. punchInTime m + 60000 * int k < punchOutTime m
                         \<and> nightHour (tz db (punchInTime m + 60000 * int k) (zoneOf s))})
       \<and> nightDiffMinutes m =
           int (nightAmong (tz db (punchInTime m) (zoneOf s))
                  (startedMinutes (punchInTime m) (punchOutTime m)))
       \<and> ((punchOutTime m - punchInTime m) mod 60000 = 0 \<longrightarrow>
            nightDiffMinutes m =
              int (wholeNightMinutes (tz db (punchInTime m) (zoneOf s))
                                     (tz db (punchOutTime m) (zoneOf s))))
       \<and> (\<forall>(a' :: attendance) m'.
            calculateTimeMetrics db a' s = Inr m'
            \<and> punchInTime m' \<le> punchInTime m \<and> punchOutTime m \<le> punchOutTime m'
            \<and> (\<forall>t. punchInTime m' \<le> t \<and> t < punchInTime m \<longrightarrow>
                   nightHour (tz db t (zoneOf s)))
            \<longrightarrow> nightDiffMinutes m \<le> nightDiffMinutes m')"
proof (intro conjI allI impI)
  let ?pin = "tz db (punchInTime m) (zoneOf s)"
  let ?pout = "tz db (punchOutTime m) (zoneOf s)"
  have nd: "nightDiffMinutes m = calculateNightDifferential ?pin ?pout"
    by (rule calculateTimeMetrics_night[OF assms])
  show count: "nightDiffMinutes m =
      int (nightAmong ?pin (startedMinutes (punchInTime m) (punchOutTime m)))"
    by (simp add: nd calculateNightDifferential_count tz_def)
  then show "nightDiffMinutes m =
      int (card {k. punchInTime m + 60000 * int k < punchOutTime m
                    \<and> nightHour (tz db (punchInTime m + 60000 * int k) (zoneOf s))})"
    by (simp only: night_steps_card)
  {
    assume "(punchOutTime m - punchInTime m) mod 60000 = 0"
    from whole_started[OF this]
    show "nightDiffMinutes m = int (wholeNightMinutes ?pin ?pout)"
      by (simp add: count wholeNightMinutes_def tz_def)
  }
  {
    fix a' :: attendance and m'
    assume h: "calculateTimeMetrics db a' s = Inr m'
            \<and> punchInTime m' \<le> punchInTime m \<and> punchOutTime m \<le> punchOutTime m'
            \<and> (\<forall>t. punchInTime m' \<le> t \<and> t < punchInTime m \<longrightarrow>
                   nightHour (tz db t (zoneOf s)))"
    let ?pin' = "tz db (punchInTime m') (zoneOf s)"
    let ?pout' = "tz db (punchOutTime m') (zoneOf s)"
    from h have nd': "nightDiffMinutes m' = calculateNightDifferential ?pin' ?pout'"
      using calculateTimeMetrics_night[of db a' s m'] by simp
    have upd: "?pin\<lparr>valueOf := t\<rparr> = tz db t (zoneOf s)" for t
      by (simp add: tz_def)
    have "calculateNightDifferential ?pin ?pout
            \<le> calculateNightDifferential (?pin\<lparr>valueOf := punchInTime m'\<rparr>) ?pout"
      using h by (intro front_extension) (simp_all add: upd, simp_all add: tz_def)
    also have "\<dots> = calculateNightDifferential ?pin' ?pout" by (simp add: upd)
    also have "\<dots> \<le> calculateNightDifferential ?pin' ?pout'"
      using h by (intro back_extension) (simp add: tz_def)
    finally show "nightDiffMinutes m \<le> nightDiffMinutes m'"
      by (simp add: nd nd')
  }
qed


lemma night_short_value:
  "calculateTimeMetrics zones
     (punches (isoInstant 2025 10 1 22 10 0 480) (isoInstant 2025 10 1 22 10 30 480)) officeHours =
   Inr \<lparr>totalWorkedHours = ''0.00'', totalWorkedMinutes = 0,
        regularHours = ''0.00'', regularMinutes = 0,
        overtimeHours = ''4.17'', overtimeMinutes = 250,
        nightDiffHours = ''0.02'', nightDiffMinutes = 1,
        lateMinutes = 790, undertimeMinutes = 0,
        punchInTime = 1759327800000, punchOutTime = 1759327830000,
        shiftStart = 1759280400000, shiftEnd = 1759312800000\<rparr>"
  by code_simp

lemma night_longer_value:
  "calculateTimeMetrics zones
     (punches (isoInstant 2025 10 1 22 9 40 480) (isoInstant 2025 10 1 22 11 10 480)) officeHours =
   Inr \<lparr>totalWorkedHours = ''0.02'', totalWorkedMinutes = 1,
        regularHours = ''0.00'', regularMinutes = 0,
        overtimeHours = ''4.18'', overtimeMinutes = 251,
        nightDiffHours = ''0.03'', nightDiffMinutes = 2,
        lateMinutes = 789, undertimeMinutes = 0,
        punchInTime = 1759327780000, punchOutTime = 1759327870000,
        shiftStart = 1759280400000, shiftEnd = 1759312800000\<rparr>"
  by code_simp

lemma night_at_2209:
  assumes "1759327780000 \<le> t" "t < 1759327800000"
  shows "nightHour (tz zones t ''Asia/Manila'')"
proof -
  have "(t + 28800000) div 3600000 = 488710"
  proof (rule int_div_pos_eq)
    show "t + 28800000 = 3600000 * 488710 + (t - 1759327200000)" by simp
    show "0 \<le> t - 1759327200000" using assms by simp
    show "t - 1759327200000 < 3600000" using assms by simp
  qed
  then show ?thesis
    by (simp add: nightHour_def hour_def localMillis_def tz_def zones_def)
qed

text \<open>
  The interval 22:10:00 to 22:10:30 (one night minute) extended to 22:09:40 to 22:11:10
  (two).
\<close>

theorem night_minutes_counted_witness:
  "\<exists>m m'. calculateTimeMetrics zones
          (punches (isoInstant 2025 10 1 22 10 0 480) (isoInstant 2025 10 1 22 10 30 480))
          officeHours = Inr m
        \<and> calculateTimeMetrics zones
          (punches (isoInstant 2025 10 1 22 9 40 480) (isoInstant 2025 10 1 22 11 10 480))
          officeHours = Inr m'
        \<and> nightDiffMinutes m =
             int (nightAmong (tz zones (punchInTime m) ''Asia/Manila'')
                    (startedMinutes (punchInTime m) (punchOutTime m)))
        \<and> nightDiffMinutes m = 1 \<and> nightDiffMinutes m' = 2
        \<and> nightDiffMinutes m \<le> nightDiffMinutes m'"
proof -
  let ?m = "\<lparr>totalWorkedHours = ''0.00'', totalWorkedMinutes = 0,
        regularHours = ''0.00'', regularMinutes = 0,
        overtimeHours = ''4.17'', overtimeMinutes = 250,
        nightDiffHours = ''0.02'', nightDiffMinutes = 1,
        lateMinutes = 790, undertimeMinutes = 0,
        punchInTime = 1759327800000, punchOutTime = 1759327830000,
        shiftStart = 1759280400000, shiftEnd = 1759312800000\<rparr>"
  let ?m' = "\<lparr>totalWorkedHours = ''0.02'', totalWorkedMinutes = 1,
        regularHours = ''0.00'', regularMinutes = 0,
        overtimeHours = ''4.18'', overtimeMinutes = 251,
        nightDiffHours = ''0.03'', nightDiffMinutes = 2,
        lateMinutes = 789, undertimeMinutes = 0,
        punchInTime = 1759327780000, punchOutTime = 1759327870000,
        shiftStart = 1759280400000, shiftEnd = 1759312800000\<rparr>"
  note t = night_minutes_counted[OF night_short_value]
  have z: "zoneOf officeHours = ''Asia/Manila''" by (simp add: zoneOf_def officeHours_def)
  from t[unfolded z] have count: "nightDiffMinutes ?m =
      int (nightAmong (tz zones (punchInTime ?m) ''Asia/Manila'')
             (startedMinutes (punchInTime ?m) (punchOutTime ?m)))"
    by (elim conjE) assumption
  have night: "\<forall>t. punchInTime ?m' \<le> t \<and> t < punchInTime ?m \<longrightarrow>
      nightHour (tz zones t (zoneOf officeHours))"
    using night_at_2209 by (simp add: z)
  from t have "\<forall>(a' :: attendance) m'.
            calculateTimeMetrics zones a' officeHours = Inr m'
            \<and> punchInTime m' \<le> punchInTime ?m \<and> punchOutTime ?m \<le> punchOutTime m'
            \<and> (\<forall>t. punchInTime m' \<le> t \<and> t < punchInTime ?m \<longrightarrow>
                   nightHour (tz zones t (zoneOf officeHours)))
            \<longrightarrow> nightDiffMinutes ?m \<le> nightDiffMinutes m'"
    by blast
  from this[rule_format, of _ ?m'] night_longer_value night
  have le: "nightDiffMinutes ?m \<le> nightDiffMinutes ?m'" by simp
  show ?thesis
    using count le by (simp add: night_short_value night_longer_value)
qed

section \<open>The batch\<close>

lemma batchEntry_punches:
  "punchIn (batchEntry db s r) = punchIn r" "punchOut (batchEntry db s r) = punchOut r"
  by (simp_all add: batchEntry_def split: sum.splits)

lemma batchEntry_metrics:
  "others (batchEntry db s r) ''metrics'' =
     Some (case calculateTimeMetrics db r s of Inr m \<Rightarrow> JMetrics m | Inl e \<Rightarrow> JNull)"
  "others (batchEntry db s r) ''calculationError'' =
     Some (case calculateTimeMetrics db r s of Inr m \<Rightarrow> JNull | Inl e \<Rightarrow> JStr (message e))"
  by (simp_all add: batchEntry_def split: sum.splits)

lemma batchEntry_others:
  "k \<noteq> ''metrics'' \<Longrightarrow> k \<noteq> ''calculationError'' \<Longrightarrow>
   others (batchEntry db s r) k = others r k"
  by (simp add: batchEntry_def split: sum.splits)

lemma batchEntry_dom:
  "dom (others (batchEntry db s r)) = dom (others r) \<union> {''metrics'', ''calculationError''}"
  by (auto simp: batchEntry_def split: sum.splits)

lemma short_punch_value:
  "calculateTimeMetrics zones
     (punches (isoInstant 2025 10 1 17 58 0 480) (isoInstant 2025 10 1 18 1 0 480)) officeHours =
   Inr \<lparr>totalWorkedHours = ''0.05'', totalWorkedMinutes = 3,
        regularHours = ''0.03'', regularMinutes = 2,
        overtimeHours = ''0.02'', overtimeMinutes = 1,
        nightDiffHours = ''0.00'', nightDiffMinutes = 0,
        lateMinutes = 538, undertimeMinutes = 0,
        punchInTime = 1759312680000, punchOutTime = 1759312860000,
        shiftStart = 1759280400000, shiftEnd = 1759312800000\<rparr>"
  by code_simp

lemma no_punch_out_value:
  "calculateTimeMetrics zones
     \<lparr>punchIn = Some (isoInstant 2025 10 1 9 0 0 480), punchOut = None, others = Map.empty\<rparr>
     officeHours = Inl (Error ''Both punchIn and punchOut are required'')"
  by (simp add: calculateTimeMetrics_def)

text \<open>
  C7. The batch returns one entry per record, in the order of the input: entry \<open>i\<close> has
  the punches of record \<open>i\<close>; when the calculation of record \<open>i\<close> succeeds its
  \<^verbatim>\<open>metrics\<close> is the result and its \<^verbatim>\<open>calculationError\<close> is null, and when it fails its
  \<^verbatim>\<open>metrics\<close> is null and its \<^verbatim>\<open>calculationError\<close> is the message. So exactly one of the
  two is null, and what entry \<open>i\<close> holds depends on record \<open>i\<close> alone, whatever happens to
  the other records.
\<close>

theorem batch_per_record:
  "length (batchCalculateTimeMetrics db rs s) = length rs
   \<and> (\<forall>i < length rs.
        punchIn (batchCalculateTimeMetrics db rs s ! i) = punchIn (rs ! i)
      \<and> punchOut (batchCalculateTimeMetrics db rs s ! i) = punchOut (rs ! i)
      \<and> (case calculateTimeMetrics db (rs ! i) s of
           Inr m \<Rightarrow>
             others (batchCalculateTimeMetrics db rs s ! i) ''metrics'' = Some (JMetrics m)
           \<and> others (batchCalculateTimeMetrics db rs s ! i) ''calculationError'' = Some JNull
         | Inl e \<Rightarrow>
             others (batchCalculateTimeMetrics db rs s ! i) ''metrics'' = Some JNull
           \<and> others (batchCalculateTimeMetrics db rs s ! i) ''calculationError''
               = Some (JStr (message e)))
      \<and> ((others (batchCalculateTimeMetrics db rs s ! i) ''metrics'' = Some JNull)
           \<noteq> (others (batchCalculateTimeMetrics db rs s ! i) ''calculationError'' = Some JNull)))"
  by (auto simp: batchCalculateTimeMetrics_def batchEntry_punches batchEntry_metrics
        split: sum.splits)

text \<open>Three records, the second without a punch-out.\<close>

theorem batch_per_record_witness:
  "length (batchCalculateTimeMetrics zones
     [punches (isoInstant 2025 10 1 17 58 0 480) (isoInstant 2025 10 1 18 1 0 480),
      \<lparr>punchIn = Some (isoInstant 2025 10 1 9 0 0 480), punchOut = None, others = Map.empty\<rparr>,
      punches (isoInstant 2025 10 1 17 58 0 480) (isoInstant 2025 10 1 18 1 0 480)]
     officeHours) = 3
   \<and> others (batchCalculateTimeMetrics zones
     [punches (isoInstant 2025 10 1 17 58 0 480) (isoInstant 2025 10 1 18 1 0 480),
      \<lparr>punchIn = Some (isoInstant 2025 10 1 9 0 0 480), punchOut = None, others = Map.empty\<rparr>,
      punches (isoInstant 2025 10 1 17 58 0 480) (isoInstant 2025 10 1 18 1 0 480)]
     officeHours ! 1) ''metrics'' = Some JNull
   \<and> others (batchCalculateTimeMetrics zones
     [punches (isoInstant 2025 10 1 17 58 0 480) (isoInstant 2025 10 1 18 1 0 480),
      \<lparr>punchIn = Some (isoInstant 2025 10 1 9 0 0 480), punchOut = None, others = Map.empty\<rparr>,
      punches (isoInstant 2025 10 1 17 58 0 480) (isoInstant 2025 10 1 18 1 0 480)]
     officeHours ! 1) ''calculationError''
       = Some (JStr ''Both punchIn and punchOut are required'')
   \<and> others (batchCalculateTimeMetrics zones
     [punches (isoInstant 2025 10 1 17 58 0 480) (isoInstant 2025 10 1 18 1 0 480),
      \<lparr>punchIn = Some (isoInstant 2025 10 1 9 0 0 480), punchOut = None, others = Map.empty\<rparr>,
      punches (isoInstant 2025 10 1 17 58 0 480) (isoInstant 2025 10 1 18 1 0 480)]
     officeHours ! 2) ''calculationError'' = Some JNull
   \<and> others (batchCalculateTimeMetrics zones
     [punches (isoInstant 2025 10 1 17 58 0 480) (isoInstant 2025 10 1 18 1 0 480),
      \<lparr>punchIn = Some (isoInstant 2025 10 1 9 0 0 480), punchOut = None, others = Map.empty\<rparr>,
      punches (isoInstant 2025 10 1 17 58 0 480) (isoInstant 2025 10 1 18 1 0 480)]
     officeHours ! 2) ''metrics'' \<noteq> Some JNull"
proof -
  let ?rs = "[punches (isoInstant 2025 10 1 17 58 0 480) (isoInstant 2025 10 1 18 1 0 480),
      \<lparr>punchIn = Some (isoInstant 2025 10 1 9 0 0 480), punchOut = None, others = Map.empty\<rparr>,
      punches (isoInstant 2025 10 1 17 58 0 480) (isoInstant 2025 10 1 18 1 0 480)]"
  note t = batch_per_record[of zones ?rs officeHours]
  from t have len: "length (batchCalculateTimeMetrics zones ?rs officeHours) = 3" by simp
  from t have e1: "others (batchCalculateTimeMetrics zones ?rs officeHours ! 1) ''metrics'' = Some JNull
     \<and> others (batchCalculateTimeMetrics zones ?rs officeHours ! 1) ''calculationError''
       = Some (JStr ''Both punchIn and punchOut are required'')"
    using no_punch_out_value by (auto dest!: spec[of _ 1])
  from t have e2: "others (batchCalculateTimeMetrics zones ?rs officeHours ! 2) ''calculationError'' = Some JNull
     \<and> others (batchCalculateTimeMetrics zones ?rs officeHours ! 2) ''metrics'' \<noteq> Some JNull"
    using short_punch_value by (auto dest!: spec[of _ 2])
  from len e1 e2 show ?thesis by simp
qed

text \<open>
  C10 as stated fails for a record that already has a field \<^verbatim>\<open>metrics\<close>: the entry of the
  batch holds the new metrics under that name, not the record's value.
\<close>

theorem batch_overwrites_metrics_counterexample:
  "others ((punches (isoInstant 2025 10 1 17 58 0 480) (isoInstant 2025 10 1 18 1 0 480))
             \<lparr>others := [''metrics'' \<mapsto> JStr ''stale'']\<rparr>) ''metrics'' = Some (JStr ''stale'')
   \<and> others (batchCalculateTimeMetrics zones
        [(punches (isoInstant 2025 10 1 17 58 0 480) (isoInstant 2025 10 1 18 1 0 480))
             \<lparr>others := [''metrics'' \<mapsto> JStr ''stale'']\<rparr>] officeHours ! 0) ''metrics''
       \<noteq> Some (JStr ''stale'')"
  by (simp add: batchCalculateTimeMetrics_def batchEntry_metrics split: sum.splits)

text \<open>
  C10, as amended. Every entry keeps the punches of its record and every other field of
  the record except \<^verbatim>\<open>metrics\<close> and \<^verbatim>\<open>calculationError\<close>, with its value; the
  fields of the entry are those of the record together with these two, which the batch
  sets.
\<close>

theorem batch_keeps_other_fields:
  "length (batchCalculateTimeMetrics db rs s) = length rs
   \<and> (\<forall>i < length rs.
        punchIn (batchCalculateTimeMetrics db rs s ! i) = punchIn (rs ! i)
      \<and> punchOut (batchCalculateTimeMetrics db rs s ! i) = punchOut (rs ! i)
      \<and> (\<forall>k. k \<noteq> ''metrics'' \<and> k \<noteq> ''calculationError'' \<longrightarrow>
             others (batchCalculateTimeMetrics db rs s ! i) k = others (rs ! i) k)
      \<and> dom (others (batchCalculateTimeMetrics db rs s ! i))
          = dom (others (rs ! i)) \<union> {''metrics'', ''calculationError''})"
  by (simp add: batchCalculateTimeMetrics_def batchEntry_punches batchEntry_others batchEntry_dom)

text \<open>A record with a \<^verbatim>\<open>userId\<close>.\<close>

theorem batch_keeps_other_fields_witness:
  "others (batchCalculateTimeMetrics zones
      [(punches (isoInstant 2025 10 1 9 0 0 480) (isoInstant 2025 10 1 18 0 0 480))
        \<lparr>others := [''userId'' \<mapsto> JStr ''u1'']\<rparr>] officeHours ! 0) ''userId''
     = Some (JStr ''u1'')
   \<and> punchIn (batchCalculateTimeMetrics zones
      [(punches (isoInstant 2025 10 1 9 0 0 480) (isoInstant 2025 10 1 18 0 0 480))
        \<lparr>others := [''userId'' \<mapsto> JStr ''u1'']\<rparr>] officeHours ! 0)
     = Some (isoInstant 2025 10 1 9 0 0 480)
   \<and> dom (others (batchCalculateTimeMetrics zones
      [(punches (isoInstant 2025 10 1 9 0 0 480) (isoInstant 2025 10 1 18 0 0 480))
        \<lparr>others := [''userId'' \<mapsto> JStr ''u1'']\<rparr>] officeHours ! 0))
     = {''userId'', ''metrics'', ''calculationError''}"
proof -
  let ?rs = "[(punches (isoInstant 2025 10 1 9 0 0 480) (isoInstant 2025 10 1 18 0 0 480))
        \<lparr>others := [''userId'' \<mapsto> JStr ''u1'']\<rparr>]"
  note t = batch_keeps_other_fields[of zones ?rs officeHours]
  from t have "others (batchCalculateTimeMetrics zones ?rs officeHours ! 0) ''userId''
      = others (?rs ! 0) ''userId''"
    by (auto dest!: spec[of _ 0] spec[of _ "''userId''"])
  moreover from t have "punchIn (batchCalculateTimeMetrics zones ?rs officeHours ! 0) = punchIn (?rs ! 0)"
    by (auto dest!: spec[of _ 0])
  moreover from t have "dom (others (batchCalculateTimeMetrics zones ?rs officeHours ! 0))
      = dom (others (?rs ! 0)) \<union> {''metrics'', ''calculationError''}"
    by (auto dest!: spec[of _ 0])
  ultimately show ?thesis by (simp add: punches_def insert_commute)
qed

end
